theory Spec2Isabelle
  imports Complex_Main "HOL-Library.AList" "HOL-Library.Monad_Syntax"
begin

section \<open>JavaScript values as the component sees them\<close>

text \<open>
  The component handles untyped data (\<^verbatim>\<open>any\<close>): JSON bodies of the canvas service,
  event payloads, records read back from IndexedDB, and what the drawing surface passes to
  \<^verbatim>\<open>onChange\<close>. A number is a double; only its truthiness and its order are used by the
  code, so a finite number is its rational value (\<^verbatim>\<open>-0\<close> and \<^verbatim>\<open>0\<close> are both \<open>Fin 0\<close>).
  An object is the list of its own properties in insertion order; a lookup takes the
  first binding of a key.
\<close>

datatype jsnum = NaN | Fin rat | PInf | NInf

datatype jsval =
    JUndefined
  | JNull
  | JBool bool
  | JNum jsnum
  | JStr string
  | JArr "jsval list"
  | JObj "(string \<times> jsval) list"
  | JMap "(jsval \<times> jsval) list"

text \<open>\<^verbatim>\<open>ToBoolean\<close>: what \<^verbatim>\<open>!x\<close>, \<^verbatim>\<open>x || y\<close>, \<^verbatim>\<open>x && y\<close> and \<^verbatim>\<open>Boolean(x)\<close> test.\<close>

fun js_truthy :: "jsval \<Rightarrow> bool" where
  "js_truthy JUndefined = False"
| "js_truthy JNull = False"
| "js_truthy (JBool b) = b"
| "js_truthy (JNum NaN) = False"
| "js_truthy (JNum (Fin q)) = (q \<noteq> 0)"
| "js_truthy (JNum PInf) = True"
| "js_truthy (JNum NInf) = True"
| "js_truthy (JStr s) = (s \<noteq> [])"
| "js_truthy (JArr xs) = True"
| "js_truthy (JObj kvs) = True"
| "js_truthy (JMap kvs) = True"

text \<open>\<^verbatim>\<open>a || b\<close>\<close>

definition js_or :: "jsval \<Rightarrow> jsval \<Rightarrow> jsval" where
  "js_or a b = (if js_truthy a then a else b)"

text \<open>\<^verbatim>\<open>Array.isArray(x)\<close>, \<^verbatim>\<open>typeof x === 'object'\<close>, \<^verbatim>\<open>typeof x === 'number'\<close>,
  \<^verbatim>\<open>x instanceof Map\<close>\<close>

fun isArray :: "jsval \<Rightarrow> bool" where
  "isArray (JArr xs) = True"
| "isArray v = False"

fun typeof_object :: "jsval \<Rightarrow> bool" where
  "typeof_object JNull = True"
| "typeof_object (JArr xs) = True"
| "typeof_object (JObj kvs) = True"
| "typeof_object (JMap kvs) = True"
| "typeof_object v = False"

fun typeof_number :: "jsval \<Rightarrow> bool" where
  "typeof_number (JNum n) = True"
| "typeof_number v = False"

fun instanceof_Map :: "jsval \<Rightarrow> bool" where
  "instanceof_Map (JMap kvs) = True"
| "instanceof_Map v = False"

text \<open>
  \<^verbatim>\<open>x.key\<close> for one of the names the code reads (\<^verbatim>\<open>canvas\<close>, \<^verbatim>\<open>elements\<close>,
  \<^verbatim>\<open>collaborators\<close>, \<^verbatim>\<open>opacity\<close>, ...; none is an index or \<^verbatim>\<open>length\<close>): the own
  property of a plain object, \<^verbatim>\<open>undefined\<close> on every other value. On \<^verbatim>\<open>null\<close> and
  \<^verbatim>\<open>undefined\<close> the access throws a TypeError; the callers below test for that case
  with \<open>js_nullish\<close> before they use \<open>js_get\<close>.
\<close>

fun js_get :: "jsval \<Rightarrow> string \<Rightarrow> jsval" where
  "js_get (JObj kvs) k = (case map_of kvs k of None \<Rightarrow> JUndefined | Some v \<Rightarrow> v)"
| "js_get v k = JUndefined"

fun js_nullish :: "jsval \<Rightarrow> bool" where
  "js_nullish JUndefined = True"
| "js_nullish JNull = True"
| "js_nullish v = False"

text \<open>Decimal rendering of a natural number, for template strings and index keys.\<close>

definition digit_char :: "nat \<Rightarrow> char" where
  "digit_char d = char_of (48 + d)"

function show_nat :: "nat \<Rightarrow> string" where
  "show_nat n = (if n < 10 then [digit_char n] else show_nat (n div 10) @ [digit_char (n mod 10)])"
  by pat_completeness auto
termination
  by (relation "measure id") auto

declare show_nat.simps [simp del]

text \<open>
  The own enumerable properties that an object spread \<^verbatim>\<open>{ ...x }\<close> copies: those of a
  plain object, the indexed entries of an array, the indexed characters of a string,
  nothing for any other value.
\<close>

definition indexed :: "jsval list \<Rightarrow> (string \<times> jsval) list" where
  "indexed xs = zip (map show_nat [0..<length xs]) xs"

fun js_spread :: "jsval \<Rightarrow> (string \<times> jsval) list" where
  "js_spread (JObj kvs) = kvs"
| "js_spread (JArr xs) = indexed xs"
| "js_spread (JStr s) = indexed (map (\<lambda>c. JStr [c]) s)"
| "js_spread v = []"

text \<open>
  Converting an object to a primitive looks up \<^verbatim>\<open>valueOf\<close> and \<^verbatim>\<open>toString\<close> and calls the
  first that is callable and returns a primitive. Data carries no functions, so an own
  property \<^verbatim>\<open>toString\<close> of a plain object hides \<^verbatim>\<open>Object.prototype.toString\<close> and the
  conversion throws a TypeError (\<^verbatim>\<open>Object.prototype.valueOf\<close> returns the object itself and
  an own \<^verbatim>\<open>valueOf\<close> is not callable either). An array converts through \<^verbatim>\<open>join\<close>, which
  converts every element that is not \<^verbatim>\<open>null\<close> or \<^verbatim>\<open>undefined\<close> to a string, so it throws
  when one of its elements does. Nothing else throws.
\<close>

fun toPrimitive_throws :: "jsval \<Rightarrow> bool" where
  "toPrimitive_throws (JObj kvs) = (map_of kvs ''toString'' \<noteq> None)"
| "toPrimitive_throws (JArr xs) = list_ex toPrimitive_throws xs"
| "toPrimitive_throws v = False"

text \<open>
  The number that \<^verbatim>\<open>Number(x)\<close> gives when the conversion to a primitive does not throw.
  The numeric value of a string is the platform's \<^verbatim>\<open>StringToNumber\<close>, taken as the
  parameter \<open>s2n\<close>. An array converts through its string form: the empty array and a
  one-element array holding \<^verbatim>\<open>null\<close> or \<^verbatim>\<open>undefined\<close> give 0, a one-element array converts
  as its element does (a boolean element gives the text \<^verbatim>\<open>true\<close>/\<^verbatim>\<open>false\<close>, which is no
  number), and longer arrays contain a comma. A plain object or a Map gives
  \<^verbatim>\<open>[object ...]\<close>, which is no number.
\<close>

fun js_ToNumber :: "(string \<Rightarrow> jsnum) \<Rightarrow> jsval \<Rightarrow> jsnum" where
  "js_ToNumber s2n JUndefined = NaN"
| "js_ToNumber s2n JNull = Fin 0"
| "js_ToNumber s2n (JBool b) = (if b then Fin 1 else Fin 0)"
| "js_ToNumber s2n (JNum n) = n"
| "js_ToNumber s2n (JStr s) = s2n s"
| "js_ToNumber s2n (JArr []) = Fin 0"
| "js_ToNumber s2n (JArr [JUndefined]) = Fin 0"
| "js_ToNumber s2n (JArr [JNull]) = Fin 0"
| "js_ToNumber s2n (JArr [JBool b]) = NaN"
| "js_ToNumber s2n (JArr [JNum n]) = n"
| "js_ToNumber s2n (JArr [JStr s]) = s2n s"
| "js_ToNumber s2n (JArr [JArr ys]) = js_ToNumber s2n (JArr ys)"
| "js_ToNumber s2n (JArr [JObj kvs]) = NaN"
| "js_ToNumber s2n (JArr [JMap kvs]) = NaN"
| "js_ToNumber s2n (JArr (x # y # zs)) = NaN"
| "js_ToNumber s2n (JObj kvs) = NaN"
| "js_ToNumber s2n (JMap kvs) = NaN"

text \<open>\<^verbatim>\<open>Number(x)\<close>: \<open>None\<close> is the TypeError.\<close>

definition js_Number :: "(string \<Rightarrow> jsnum) \<Rightarrow> jsval \<Rightarrow> jsnum option" where
  "js_Number s2n v = (if toPrimitive_throws v then None else Some (js_ToNumber s2n v))"

text \<open>\<^verbatim>\<open>a > b\<close> on numbers: false as soon as one side is NaN.\<close>

fun num_gt :: "jsnum \<Rightarrow> jsnum \<Rightarrow> bool" where
  "num_gt NaN b = False"
| "num_gt a NaN = False"
| "num_gt (Fin a) (Fin b) = (b < a)"
| "num_gt (Fin a) PInf = False"
| "num_gt (Fin a) NInf = True"
| "num_gt PInf PInf = False"
| "num_gt PInf b = True"
| "num_gt NInf b = False"

text \<open>\<^verbatim>\<open>n > v\<close> with a number on the left: the right side is converted as \<^verbatim>\<open>Number\<close> does,
  and \<open>None\<close> is the TypeError of that conversion.\<close>

definition js_gt :: "(string \<Rightarrow> jsnum) \<Rightarrow> jsnum \<Rightarrow> jsval \<Rightarrow> bool option" where
  "js_gt s2n n v = map_option (num_gt n) (js_Number s2n v)"

text \<open>
  \<^verbatim>\<open>a !== b\<close>. Primitives compare by value (NaN differs from itself); arrays, objects and
  Maps compare by identity, and the two sides met in this component always come from
  different parses of a response, so they are never the same object.
\<close>

fun js_strict_eq :: "jsval \<Rightarrow> jsval \<Rightarrow> bool" where
  "js_strict_eq JUndefined JUndefined = True"
| "js_strict_eq JNull JNull = True"
| "js_strict_eq (JBool a) (JBool b) = (a = b)"
| "js_strict_eq (JNum NaN) (JNum b) = False"
| "js_strict_eq (JNum a) (JNum b) = (a = b)"
| "js_strict_eq (JStr a) (JStr b) = (a = b)"
| "js_strict_eq a b = False"


section \<open>The local cache: \<^verbatim>\<open>storage/indexedDBService.ts\<close>\<close>

text \<open>
  The object store holds at most one record, under the key \<^verbatim>\<open>'current'\<close>. Its fields are
  written as \<^verbatim>\<open>CanvasData\<close> declares them, but what is read back is untyped, and
  \<^verbatim>\<open>repairData\<close> tests the shapes at run time, so every field is a \<open>jsval\<close>.
\<close>

record CanvasData =
  cd_elements :: jsval
  cd_appState :: jsval
  cd_timestamp :: jsval

datatype error = StorageError

text \<open>
  The service: \<open>db\<close> says whether \<^verbatim>\<open>this.db\<close> is set, \<open>current\<close> is the content of the
  object store, \<open>puts\<close> lists the records that \<^verbatim>\<open>store.put\<close> has written, oldest first.
  The four flags say which requests of the platform end in \<^verbatim>\<open>onerror\<close>.
\<close>

record IndexedDBService =
  db :: bool
  current :: "CanvasData option"
  puts :: "CanvasData list"
  openFails :: bool
  getFails :: bool
  putFails :: bool
  deleteFails :: bool

definition init :: "IndexedDBService \<Rightarrow> (error + unit) \<times> IndexedDBService" where
  "init s = (if openFails s then (Inl StorageError, s) else (Inr (), s\<lparr>db := True\<rparr>))"

text \<open>\<^verbatim>\<open>if (!this.db) { await this.init(); }\<close>, the first statement of every operation\<close>

definition ensureDb :: "IndexedDBService \<Rightarrow> (error + unit) \<times> IndexedDBService" where
  "ensureDb s = (if \<not> db s then init s else (Inr (), s))"

text \<open>\<open>now\<close> is the value of \<^verbatim>\<open>Date.now()\<close>, in milliseconds.\<close>

definition stamp :: "nat \<Rightarrow> jsval" where
  "stamp now = JNum (Fin (of_nat now))"

definition saveCanvasData ::
  "nat \<Rightarrow> jsval \<Rightarrow> jsval \<Rightarrow> IndexedDBService \<Rightarrow> (error + unit) \<times> IndexedDBService" where
  "saveCanvasData now elements appState s =
     (case ensureDb s of
        (Inl e, s1) \<Rightarrow> (Inl e, s1)
      | (Inr u, s1) \<Rightarrow>
          (let canvasData = \<lparr>cd_elements = elements, cd_appState = appState,
                              cd_timestamp = stamp now\<rparr>
           in if putFails s1 then (Inl StorageError, s1)
              else (Inr (), s1\<lparr>current := Some canvasData, puts := puts s1 @ [canvasData]\<rparr>)))"

definition loadCanvasData ::
  "IndexedDBService \<Rightarrow> (error + CanvasData option) \<times> IndexedDBService" where
  "loadCanvasData s =
     (case ensureDb s of
        (Inl e, s1) \<Rightarrow> (Inl e, s1)
      | (Inr u, s1) \<Rightarrow>
          if getFails s1 then (Inl StorageError, s1)
          else (case current s1 of
                  Some result \<Rightarrow>
                    (Inr (Some \<lparr>cd_elements = cd_elements result,
                                 cd_appState = cd_appState result,
                                 cd_timestamp = cd_timestamp result\<rparr>), s1)
                | None \<Rightarrow> (Inr None, s1)))"

definition clearCanvasData :: "IndexedDBService \<Rightarrow> (error + unit) \<times> IndexedDBService" where
  "clearCanvasData s =
     (case ensureDb s of
        (Inl e, s1) \<Rightarrow> (Inl e, s1)
      | (Inr u, s1) \<Rightarrow>
          if deleteFails s1 then (Inl StorageError, s1)
          else (Inr (), s1\<lparr>current := None\<rparr>))"

definition getLastUpdateTime :: "IndexedDBService \<Rightarrow> (error + jsval) \<times> IndexedDBService" where
  "getLastUpdateTime s =
     (case loadCanvasData s of
        (Inl e, s1) \<Rightarrow> (Inl e, s1)
      | (Inr data, s1) \<Rightarrow>
          (Inr (case data of Some d \<Rightarrow> cd_timestamp d | None \<Rightarrow> JNull), s1))"

text \<open>The \<^verbatim>\<open>catch\<close> of \<^verbatim>\<open>shouldUpdateData\<close> answers \<^verbatim>\<open>true\<close>: after a failed read, and
  after a comparison that throws.\<close>

definition shouldUpdateData ::
  "(string \<Rightarrow> jsnum) \<Rightarrow> jsnum \<Rightarrow> IndexedDBService \<Rightarrow> bool \<times> IndexedDBService" where
  "shouldUpdateData s2n newTimestamp s =
     (case getLastUpdateTime s of
        (Inl e, s1) \<Rightarrow> (True, s1)
      | (Inr lastUpdate, s1) \<Rightarrow>
          if \<not> js_truthy lastUpdate then (True, s1)
          else (case js_gt s2n newTimestamp lastUpdate of
                  None \<Rightarrow> (True, s1)
                | Some newer \<Rightarrow> (newer, s1)))"

text \<open>
  \<^verbatim>\<open>repairData\<close>: the outer \<^verbatim>\<open>catch\<close> (a failed load or a failed save) clears the store, and
  only a failure of that clear answers \<^verbatim>\<open>false\<close>. The repaired timestamp is assigned to
  the local \<^verbatim>\<open>data\<close> only: \<^verbatim>\<open>saveCanvasData\<close> receives the elements and the appState and
  stamps the record itself.
\<close>

definition repairCatch :: "IndexedDBService \<Rightarrow> bool \<times> IndexedDBService" where
  "repairCatch s =
     (case clearCanvasData s of
        (Inl clearError, s1) \<Rightarrow> (False, s1)
      | (Inr u, s1) \<Rightarrow> (True, s1))"

definition repairData :: "nat \<Rightarrow> IndexedDBService \<Rightarrow> bool \<times> IndexedDBService" where
  "repairData now s =
     (case loadCanvasData s of
        (Inl e, s1) \<Rightarrow> repairCatch s1
      | (Inr None, s1) \<Rightarrow> (True, s1)
      | (Inr (Some data), s1) \<Rightarrow>
          (let data1 = (if \<not> isArray (cd_elements data)
                        then data\<lparr>cd_elements := JArr []\<rparr> else data);
               data2 = (if \<not> js_truthy (cd_appState data1) \<or> \<not> typeof_object (cd_appState data1)
                        then data1\<lparr>cd_appState := JObj []\<rparr> else data1);
               data3 = (if \<not> js_truthy (cd_timestamp data2) \<or> \<not> typeof_number (cd_timestamp data2)
                        then data2\<lparr>cd_timestamp := stamp now\<rparr> else data2)
           in case saveCanvasData now (cd_elements data3) (cd_appState data3) s1 of
                (Inl e, s2) \<Rightarrow> repairCatch s2
              | (Inr u, s2) \<Rightarrow> (True, s2)))"


section \<open>The component: \<^verbatim>\<open>ExcalidrawCanvas.tsx\<close>\<close>

subsection \<open>\<^verbatim>\<open>ensureCollaboratorsMap\<close>\<close>

definition ensureCollaboratorsMap :: "jsval \<Rightarrow> jsval" where
  "ensureCollaboratorsMap appState =
     (if \<not> js_truthy appState then JObj [(''collaborators'', JMap [])]
      else if instanceof_Map (js_get appState ''collaborators'') then appState
      else JObj (AList.update ''collaborators'' (JMap []) (js_spread appState)))"

subsection \<open>What the platform and the drawing surface decide\<close>

text \<open>
  \<open>updateScene\<close> hands a scene to the drawing surface; the third field is absent in the
  call that passes no \<^verbatim>\<open>files\<close>.
\<close>

record Scene =
  sc_elements :: jsval
  sc_appState :: jsval
  sc_files :: "jsval option"

text \<open>
  The parts of a run that the code does not decide: the numeric value of a string, the text
  \<^verbatim>\<open>JSON.stringify\<close> gives, the value \<^verbatim>\<open>Math.floor(Math.random() * 1000000)\<close> takes for the
  element at an index (first argument) and a field, and the scenes on which \<^verbatim>\<open>updateScene\<close>
  throws.
\<close>

record Platform =
  StringToNumber :: "string \<Rightarrow> jsnum"
  JSON_stringify :: "jsval \<Rightarrow> string"
  Math_random :: "nat \<Rightarrow> string \<Rightarrow> nat"
  updateScene_throws :: "Scene \<Rightarrow> bool"

subsection \<open>The element defaults of \<^verbatim>\<open>handleCanvasUpdate\<close>\<close>

text \<open>Writing properties one after the other: a present key keeps its place, a new one
  goes last.\<close>

definition assign :: "(string \<times> jsval) list \<Rightarrow> (string \<times> jsval) list \<Rightarrow> (string \<times> jsval) list" where
  "assign obj kvs = foldl (\<lambda>ob (k, v). AList.update k v ob) obj kvs"

text \<open>\<^verbatim>\<open>Number(x) || d\<close>; \<open>None\<close> when \<^verbatim>\<open>Number\<close> throws.\<close>

definition number_or :: "Platform \<Rightarrow> jsval \<Rightarrow> rat \<Rightarrow> jsval option" where
  "number_or P x d =
     map_option (\<lambda>n. js_or (JNum n) (JNum (Fin d))) (js_Number (StringToNumber P) x)"

definition randomInt :: "Platform \<Rightarrow> nat \<Rightarrow> string \<Rightarrow> jsval" where
  "randomInt P index field = JNum (Fin (of_nat (Math_random P index field mod 1000000)))"

text \<open>
  The object literal \<^verbatim>\<open>baseElement\<close>, given the values of its five \<^verbatim>\<open>Number(...) || d\<close>
  expressions; \<open>now\<close> is \<^verbatim>\<open>Date.now()\<close>.
\<close>

definition baseElementOf ::
  "Platform \<Rightarrow> nat \<Rightarrow> nat \<Rightarrow> jsval \<Rightarrow> jsval \<Rightarrow> jsval \<Rightarrow> jsval \<Rightarrow> jsval \<Rightarrow> jsval
     \<Rightarrow> (string \<times> jsval) list" where
  "baseElementOf P now index element opacity roughness strokeWidth angle version =
     (let get = js_get (JObj (js_spread element))
      in assign (js_spread element)
            [(''id'', js_or (get ''id'')
                        (JStr (''element_'' @ show_nat now @ ''_'' @ show_nat index))),
             (''seed'', js_or (get ''seed'') (randomInt P index ''seed'')),
             (''versionNonce'', js_or (get ''versionNonce'') (randomInt P index ''versionNonce'')),
             (''groupIds'', if isArray (get ''groupIds'') then get ''groupIds'' else JArr []),
             (''boundElements'', js_or (get ''boundElements'') JNull),
             (''updated'', js_or (get ''updated'') (stamp now)),
             (''link'', js_or (get ''link'') JNull),
             (''locked'', JBool (js_truthy (get ''locked''))),
             (''frameId'', js_or (get ''frameId'') JNull),
             (''strokeColor'', js_or (get ''strokeColor'') (JStr ''#000000'')),
             (''backgroundColor'', js_or (get ''backgroundColor'') (JStr ''transparent'')),
             (''isDeleted'', JBool (js_truthy (get ''isDeleted''))),
             (''opacity'', opacity),
             (''roughness'', roughness),
             (''strokeWidth'', strokeWidth),
             (''angle'', angle),
             (''version'', version)])"

text \<open>\<^verbatim>\<open>if (cleanElement.type === 'text') { ... }\<close>; \<open>None\<close> when one of its three
  \<^verbatim>\<open>Number\<close> calls throws.\<close>

definition textBlock ::
  "Platform \<Rightarrow> jsval \<Rightarrow> (string \<times> jsval) list \<Rightarrow> (string \<times> jsval) list option" where
  "textBlock P cleanElement baseElement =
     (let get = js_get cleanElement
      in if js_strict_eq (get ''type'') (JStr ''text'')
         then do {
           fontSize \<leftarrow> number_or P (get ''fontSize'') 20;
           fontFamily \<leftarrow> number_or P (get ''fontFamily'') 1;
           lineHeight \<leftarrow> number_or P (get ''lineHeight'') (5 / 4);
           Some (assign baseElement
             [(''text'', js_or (get ''text'') (JStr [])),
              (''fontSize'', fontSize),
              (''fontFamily'', fontFamily),
              (''textAlign'', js_or (get ''textAlign'') (JStr ''left'')),
              (''verticalAlign'', js_or (get ''verticalAlign'') (JStr ''top'')),
              (''containerId'', js_or (get ''containerId'') JNull),
              (''originalText'', js_or (js_or (get ''originalText'') (get ''text'')) (JStr [])),
              (''lineHeight'', lineHeight)])
         }
         else Some baseElement)"

text \<open>\<^verbatim>\<open>if (cleanElement.type === 'arrow' || cleanElement.type === 'line') { ... }\<close>\<close>

definition linearBlock :: "jsval \<Rightarrow> (string \<times> jsval) list \<Rightarrow> (string \<times> jsval) list" where
  "linearBlock cleanElement baseElement =
     (let get = js_get cleanElement
      in if js_strict_eq (get ''type'') (JStr ''arrow'') \<or> js_strict_eq (get ''type'') (JStr ''line'')
         then assign baseElement
           [(''points'', if isArray (get ''points'') then get ''points''
                         else JArr [JArr [JNum (Fin 0), JNum (Fin 0)],
                                    JArr [JNum (Fin 100), JNum (Fin 100)]]),
            (''lastCommittedPoint'', js_or (get ''lastCommittedPoint'') JNull),
            (''startBinding'', js_or (get ''startBinding'') JNull),
            (''endBinding'', js_or (get ''endBinding'') JNull),
            (''startArrowhead'', js_or (get ''startArrowhead'') JNull),
            (''endArrowhead'', js_or (get ''endArrowhead'') (JStr ''arrow''))]
         else baseElement)"

text \<open>\<^verbatim>\<open>if (cleanElement.type === 'freedraw') { ... }\<close>\<close>

definition freedrawBlock :: "jsval \<Rightarrow> (string \<times> jsval) list \<Rightarrow> (string \<times> jsval) list" where
  "freedrawBlock cleanElement baseElement =
     (let get = js_get cleanElement
      in if js_strict_eq (get ''type'') (JStr ''freedraw'')
         then assign baseElement
           [(''points'', if isArray (get ''points'') then get ''points'' else JArr []),
            (''pressures'', if isArray (get ''pressures'') then get ''pressures'' else JArr []),
            (''simulatePressure'', JBool (js_truthy (get ''simulatePressure''))),
            (''lastCommittedPoint'', js_or (get ''lastCommittedPoint'') JNull)]
         else baseElement)"

text \<open>
  The body of the \<^verbatim>\<open>forEach\<close>. The calls of \<^verbatim>\<open>Number\<close> are the only expressions of the body
  that can throw, and nothing in the body has an effect; \<open>None\<close> is the exception that
  leaves the \<^verbatim>\<open>forEach\<close>.
\<close>

definition normalizeElement :: "Platform \<Rightarrow> nat \<Rightarrow> nat \<Rightarrow> jsval \<Rightarrow> jsval option" where
  "normalizeElement P now index element =
     (let cleanElement = JObj (js_spread element);
          get = js_get cleanElement
      in do {
        opacity \<leftarrow> number_or P (get ''opacity'') 100;
        roughness \<leftarrow> number_or P (get ''roughness'') 1;
        strokeWidth \<leftarrow> number_or P (get ''strokeWidth'') 1;
        angle \<leftarrow> number_or P (get ''angle'') 0;
        version \<leftarrow> number_or P (get ''version'') 1;
        textElement \<leftarrow> textBlock P cleanElement
          (baseElementOf P now index element opacity roughness strokeWidth angle version);
        Some (JObj (freedrawBlock cleanElement (linearBlock cleanElement textElement)))
      })"

text \<open>The \<^verbatim>\<open>forEach\<close>: the processed elements, or \<open>None\<close> when the body threw for one of
  them.\<close>

definition processElements :: "Platform \<Rightarrow> nat \<Rightarrow> jsval list \<Rightarrow> jsval list option" where
  "processElements P now elements =
     those (map (\<lambda>(index, element). normalizeElement P now index element)
              (List.enumerate 0 elements))"

subsection \<open>The state of the component\<close>

text \<open>
  \<open>scenes\<close> lists the scenes that \<open>updateScene\<close> accepted, oldest first: the last one is
  what the drawing surface shows. \<open>flagTimers\<close> holds the due times of the pending
  \<^verbatim>\<open>setTimeout(() => { isUpdatingFromRestore.current = false }, 100)\<close>; \<open>saveTimeout\<close> is the
  pending debounce timer with its due time and the two values its callback captured.
  \<open>clock\<close> is \<^verbatim>\<open>Date.now()\<close>, \<open>lastUpdateTime\<close> the variable of the polling closure. A handler
  runs as one step.
\<close>

record Component =
  apiReady :: bool
  scenes :: "Scene list"
  isUpdatingFromRestore :: bool
  flagTimers :: "nat list"
  saveTimeout :: "(nat \<times> jsval \<times> jsval) option"
  lastSaveData :: string
  lastUpdateTime :: jsval
  storage :: IndexedDBService
  clock :: nat

record DrawPayload =
  p_elements :: jsval
  p_appState :: jsval
  p_files :: jsval

datatype Response = Rejected | Responded bool "jsval option"

subsection \<open>\<^verbatim>\<open>handleCanvasUpdate\<close>\<close>

text \<open>An \<open>updateScene\<close> that returns, followed by the \<^verbatim>\<open>setTimeout\<close> that clears the flag.\<close>

definition applied :: "Scene \<Rightarrow> Component \<Rightarrow> Component" where
  "applied scene c = c\<lparr>scenes := scenes c @ [scene], flagTimers := flagTimers c @ [clock c + 100]\<rparr>"

text \<open>\<^verbatim>\<open>try { await indexedDBService.saveCanvasData(...) } catch (error) { console.error(...) }\<close>\<close>

definition saveLogged :: "jsval \<Rightarrow> jsval \<Rightarrow> Component \<Rightarrow> Component" where
  "saveLogged elements appState c =
     c\<lparr>storage := snd (saveCanvasData (clock c) elements appState (storage c))\<rparr>"

definition clearLogged :: "Component \<Rightarrow> Component" where
  "clearLogged c = c\<lparr>storage := snd (clearCanvasData (storage c))\<rparr>"

text \<open>
  An exception of the \<^verbatim>\<open>forEach\<close> ends in the outer \<^verbatim>\<open>catch\<close>, before the flag is set and
  before anything is shown or saved.
\<close>

definition handleCanvasUpdate :: "Platform \<Rightarrow> DrawPayload \<Rightarrow> Component \<Rightarrow> Component" where
  "handleCanvasUpdate P payload c =
     (if \<not> apiReady c then c
      else
        let elements = (case p_elements payload of JArr xs \<Rightarrow> xs | _ \<Rightarrow> []) in
        if length elements > 0 then
          (case processElements P (clock c) elements of
             None \<Rightarrow> c
           | Some processed \<Rightarrow>
               let processedElements = JArr processed;
                   c1 = c\<lparr>isUpdatingFromRestore := True\<rparr>;
                   safeAppState = ensureCollaboratorsMap (p_appState payload);
                   scene = \<lparr>sc_elements = processedElements, sc_appState = safeAppState,
                            sc_files = Some (js_or (p_files payload) (JObj []))\<rparr>
               in if \<not> updateScene_throws P scene
                  then saveLogged processedElements (js_or (p_appState payload) (JObj []))
                         (applied scene c1)
                  else
                    let simple = \<lparr>sc_elements = processedElements, sc_appState = safeAppState,
                                   sc_files = None\<rparr>
                    in if \<not> updateScene_throws P simple
                       then saveLogged processedElements (js_or (p_appState payload) (JObj []))
                              (applied simple c1)
                       else c1)
        else
          let c1 = c\<lparr>isUpdatingFromRestore := True\<rparr>;
              safeAppState = ensureCollaboratorsMap (p_appState payload);
              scene = \<lparr>sc_elements = JArr [], sc_appState = safeAppState,
                       sc_files = Some (js_or (p_files payload) (JObj []))\<rparr>
          in if \<not> updateScene_throws P scene
             then clearLogged (applied scene c1)
             else c1)"

subsection \<open>The polling tick\<close>

definition poll_period_ms :: nat where
  "poll_period_ms = 1000"

text \<open>
  The body of the \<^verbatim>\<open>setInterval\<close> callback for one answer of \<^verbatim>\<open>fetch\<close>. A rejected
  fetch, a body that is no JSON and \<^verbatim>\<open>data.canvas\<close> on \<^verbatim>\<open>null\<close> all end in the \<^verbatim>\<open>catch\<close>,
  which only warns.
\<close>

definition pollForwards :: "jsval \<Rightarrow> jsval \<Rightarrow> bool" where
  "pollForwards canvas lastSeen =
     (js_truthy canvas \<and> js_truthy (js_get canvas ''updated_at'')
      \<and> \<not> js_strict_eq (js_get canvas ''updated_at'') lastSeen)"

definition pollTick :: "Platform \<Rightarrow> Response \<Rightarrow> Component \<Rightarrow> Component" where
  "pollTick P response c =
     (case response of
        Rejected \<Rightarrow> c
      | Responded ok body \<Rightarrow>
          if \<not> ok then c
          else (case body of
                  None \<Rightarrow> c
                | Some data \<Rightarrow>
                    if js_nullish data then c
                    else
                      let canvas = js_get data ''canvas'' in
                      if pollForwards canvas (lastUpdateTime c)
                      then handleCanvasUpdate P
                             \<lparr>p_elements = js_get canvas ''elements'',
                              p_appState = js_get canvas ''app_state'',
                              p_files = js_get canvas ''files''\<rparr>
                             (c\<lparr>lastUpdateTime := js_get canvas ''updated_at''\<rparr>)
                      else c))"


subsection \<open>\<^verbatim>\<open>onChange\<close> and the timers\<close>

text \<open>
  \<^verbatim>\<open>[...elements]\<close> copies an array, splits a string into its characters and lists the
  entries of a Map; on any other truthy value it throws, and the handler ends there.
\<close>

fun spreadIterable :: "jsval \<Rightarrow> jsval list option" where
  "spreadIterable (JArr xs) = Some xs"
| "spreadIterable (JStr s) = Some (map (\<lambda>c. JStr [c]) s)"
| "spreadIterable (JMap kvs) = Some (map (\<lambda>(k, v). JArr [k, v]) kvs)"
| "spreadIterable v = None"

definition debounce_ms :: nat where
  "debounce_ms = 300"

definition onChange :: "Platform \<Rightarrow> jsval \<Rightarrow> jsval \<Rightarrow> jsval \<Rightarrow> Component \<Rightarrow> Component" where
  "onChange P elements appState files c =
     (if isUpdatingFromRestore c then c
      else if \<not> js_truthy elements then c
      else (case spreadIterable elements of
              None \<Rightarrow> c
            | Some xs \<Rightarrow>
                let mutableElements = JArr xs;
                    safeAppState = ensureCollaboratorsMap appState;
                    canvasData = JObj [(''elements'', mutableElements),
                                       (''appState'', safeAppState),
                                       (''files'', js_or files (JObj []))];
                    dataHash = JSON_stringify P canvasData
                in if dataHash = lastSaveData c then c
                   else c\<lparr>lastSaveData := dataHash,
                          saveTimeout := Some (clock c + debounce_ms, mutableElements, safeAppState)\<rparr>))"

text \<open>
  Time passes up to \<open>t\<close>: every timer that is due by then runs its callback, at its due
  time. The debounce callback saves what it captured and only logs a failure; a flag timer
  clears the flag.
\<close>

definition fireFlagTimers :: "nat \<Rightarrow> Component \<Rightarrow> Component" where
  "fireFlagTimers t c =
     (if list_ex (\<lambda>due. due \<le> t) (flagTimers c)
      then c\<lparr>isUpdatingFromRestore := False, flagTimers := filter (\<lambda>due. t < due) (flagTimers c)\<rparr>
      else c)"

definition fireSaveTimeout :: "nat \<Rightarrow> Component \<Rightarrow> Component" where
  "fireSaveTimeout t c =
     (case saveTimeout c of
        None \<Rightarrow> c
      | Some (due, mutableElements, safeAppState) \<Rightarrow>
          if due \<le> t
          then c\<lparr>saveTimeout := None,
                 storage := snd (saveCanvasData due mutableElements safeAppState (storage c))\<rparr>
          else c)"

definition advance :: "nat \<Rightarrow> Component \<Rightarrow> Component" where
  "advance t c = (fireSaveTimeout t (fireFlagTimers t c))\<lparr>clock := max t (clock c)\<rparr>"

text \<open>A change notification of the drawing surface at time \<open>t\<close>.\<close>

type_synonym edit = "nat \<times> jsval list \<times> jsval \<times> jsval"

definition notify :: "Platform \<Rightarrow> edit \<Rightarrow> Component \<Rightarrow> Component" where
  "notify P e c =
     (case e of (t, elements, appState, files) \<Rightarrow>
        onChange P (JArr elements) appState files (advance t c))"

fun notifyAll :: "Platform \<Rightarrow> edit list \<Rightarrow> Component \<Rightarrow> Component" where
  "notifyAll P [] c = c"
| "notifyAll P (e # es) c = notifyAll P es (notify P e c)"

text \<open>The text that \<^verbatim>\<open>onChange\<close> compares for an edit.\<close>

definition hashOf :: "Platform \<Rightarrow> edit \<Rightarrow> string" where
  "hashOf P e =
     (case e of (t, elements, appState, files) \<Rightarrow>
        JSON_stringify P (JObj [(''elements'', JArr elements),
                                (''appState'', ensureCollaboratorsMap appState),
                                (''files'', js_or files (JObj []))]))"

text \<open>
  A burst after time \<open>t0\<close> and text \<open>h0\<close>: every edit comes less than the debounce delay
  after the one before it, not before it, and its text differs from the one before it.
\<close>

fun burst :: "Platform \<Rightarrow> nat \<Rightarrow> string \<Rightarrow> edit list \<Rightarrow> bool" where
  "burst P t0 h0 [] = True"
| "burst P t0 h0 (e # es) =
     (t0 \<le> fst e \<and> fst e < t0 + debounce_ms \<and> hashOf P e \<noteq> h0 \<and> burst P (fst e) (hashOf P e) es)"

subsection \<open>\<^verbatim>\<open>initializeStorage\<close>\<close>

text \<open>
  The inner \<^verbatim>\<open>try\<close>: \<^verbatim>\<open>backendData\<close> is assigned before the save, so a failed save (caught
  with the rest) leaves it set.
\<close>

definition fetchBackendData ::
  "nat \<Rightarrow> Response \<Rightarrow> IndexedDBService \<Rightarrow> jsval option \<times> IndexedDBService" where
  "fetchBackendData now response s =
     (case response of
        Rejected \<Rightarrow> (None, s)
      | Responded ok body \<Rightarrow>
          if \<not> ok then (None, s)
          else (case body of
                  None \<Rightarrow> (None, s)
                | Some data \<Rightarrow>
                    if js_nullish data then (None, s)
                    else
                      let canvas = js_get data ''canvas'' in
                      if js_truthy canvas \<and> js_truthy (js_get canvas ''elements'')
                      then (Some canvas,
                            snd (saveCanvasData now (js_get canvas ''elements'')
                                   (js_or (js_get canvas ''appState'') (JObj [])) s))
                      else (None, s)))"

text \<open>The outer \<^verbatim>\<open>catch\<close>: one more \<^verbatim>\<open>repairData\<close>.\<close>

definition initCatch :: "Component \<Rightarrow> Component" where
  "initCatch c = c\<lparr>storage := snd (repairData (clock c) (storage c))\<rparr>"

text \<open>\<^verbatim>\<open>dataToRestore\<close> as its three fields; a record of the cache has no \<^verbatim>\<open>files\<close>.\<close>

definition restoreScene :: "Platform \<Rightarrow> jsval \<times> jsval \<times> jsval \<Rightarrow> Component \<Rightarrow> Component" where
  "restoreScene P dataToRestore c =
     (case dataToRestore of (elements, appState, files) \<Rightarrow>
        let safeAppState = ensureCollaboratorsMap appState;
            scene = \<lparr>sc_elements = elements, sc_appState = safeAppState,
                     sc_files = Some (js_or files (JObj []))\<rparr>
        in if updateScene_throws P scene then initCatch c
           else c\<lparr>scenes := scenes c @ [scene]\<rparr>)"

definition initializeStorage :: "Platform \<Rightarrow> Response \<Rightarrow> Component \<Rightarrow> Component" where
  "initializeStorage P response c =
     (case init (storage c) of
        (Inl e, s0) \<Rightarrow> initCatch (c\<lparr>storage := s0\<rparr>)
      | (Inr u, s0) \<Rightarrow>
          (case repairData (clock c) s0 of (repairSuccess, s1) \<Rightarrow>
             (case fetchBackendData (clock c) response s1 of
                (Some canvas, s2) \<Rightarrow>
                  if apiReady c
                  then restoreScene P (js_get canvas ''elements'', js_get canvas ''appState'',
                                       js_get canvas ''files'') (c\<lparr>storage := s2\<rparr>)
                  else c\<lparr>storage := s2\<rparr>
              | (None, s2) \<Rightarrow>
                  (case loadCanvasData s2 of
                     (Inl e, s3) \<Rightarrow> initCatch (c\<lparr>storage := s3\<rparr>)
                   | (Inr savedData, s3) \<Rightarrow>
                       (case savedData of
                          None \<Rightarrow> c\<lparr>storage := s3\<rparr>
                        | Some d \<Rightarrow>
                            if js_truthy (cd_elements d) \<and> apiReady c
                            then restoreScene P (cd_elements d, cd_appState d, JUndefined)
                                   (c\<lparr>storage := s3\<rparr>)
                            else c\<lparr>storage := s3\<rparr>)))))"

text \<open>What the drawing surface shows: the elements of the last scene it accepted.\<close>

definition shownElements :: "Component \<Rightarrow> jsval option" where
  "shownElements c = (if scenes c = [] then None else Some (sc_elements (last (scenes c))))"


section \<open>Vocabulary of the statements\<close>

text \<open>A read of the record succeeds when the database opens and the \<^verbatim>\<open>get\<close> request does.\<close>

definition loadSucceeds :: "IndexedDBService \<Rightarrow> bool" where
  "loadSucceeds s = ((db s \<or> \<not> openFails s) \<and> \<not> getFails s)"

text \<open>A service on which no request fails, not opened yet, holding the record \<open>r\<close>.\<close>

definition healthy :: "CanvasData option \<Rightarrow> IndexedDBService" where
  "healthy r = \<lparr>db = False, current = r, puts = [], openFails = False, getFails = False,
                putFails = False, deleteFails = False\<rparr>"

text \<open>A mapping in the sense of the data model: a plain object or a Map, not a sequence.\<close>

definition spec_mapping :: "jsval \<Rightarrow> bool" where
  "spec_mapping v = (case v of JObj kvs \<Rightarrow> True | JMap kvs \<Rightarrow> True | _ \<Rightarrow> False)"

text \<open>A delete of the record succeeds when the database opens and the \<^verbatim>\<open>delete\<close> request
  does.\<close>

definition clearSucceeds :: "IndexedDBService \<Rightarrow> bool" where
  "clearSucceeds s = ((db s \<or> \<not> openFails s) \<and> \<not> deleteFails s)"

text \<open>The record that \<^verbatim>\<open>repairData\<close> writes back for a record \<open>d\<close> it has read.\<close>

definition repaired :: "nat \<Rightarrow> CanvasData \<Rightarrow> CanvasData" where
  "repaired now d =
     \<lparr>cd_elements = (if isArray (cd_elements d) then cd_elements d else JArr []),
      cd_appState = (if js_truthy (cd_appState d) \<and> typeof_object (cd_appState d)
                     then cd_appState d else JObj []),
      cd_timestamp = stamp now\<rparr>"

text \<open>A damaged record: the elements are a string, the appState is an array, the timestamp
  is \<^verbatim>\<open>null\<close>.\<close>

definition arrayState :: CanvasData where
  "arrayState = \<lparr>cd_elements = JStr ''x'', cd_appState = JArr [JNum (Fin 1)], cd_timestamp = JNull\<rparr>"

text \<open>A platform for the examples: no string is a number, the text of a document is one
  letter per element, every random draw is 7, and \<open>updateScene\<close> never throws.\<close>

definition plainPlatform :: Platform where
  "plainPlatform =
     \<lparr>StringToNumber = (\<lambda>s. NaN),
      JSON_stringify = (\<lambda>v. case js_get v ''elements'' of JArr xs \<Rightarrow> replicate (length xs) CHR ''e'' | _ \<Rightarrow> []),
      Math_random = (\<lambda>i f. 7),
      updateScene_throws = (\<lambda>sc. False)\<rparr>"

text \<open>The scene handed to the drawing surface has a Map as its collaborators.\<close>

definition collaboratorsIsMap :: "Scene \<Rightarrow> bool" where
  "collaboratorsIsMap scene = instanceof_Map (js_get (sc_appState scene) ''collaborators'')"

text \<open>The component after mounting, as its \<^verbatim>\<open>useRef\<close> initial values and the polling closure
  have it, with the drawing surface ready, over a given store and clock.\<close>

definition startState :: "IndexedDBService \<Rightarrow> nat \<Rightarrow> Component" where
  "startState s now =
     \<lparr>apiReady = True, scenes = [], isUpdatingFromRestore = False, flagTimers = [],
      saveTimeout = None, lastSaveData = [], lastUpdateTime = JStr [], storage = s,
      clock = now\<rparr>"

text \<open>An element given by its identifier, type and geometry only.\<close>

definition rectangle :: jsval where
  "rectangle = JObj [(''id'', JStr ''r1''), (''type'', JStr ''rectangle''),
                     (''x'', JNum (Fin 10)), (''y'', JNum (Fin 20)),
                     (''width'', JNum (Fin 30)), (''height'', JNum (Fin 40))]"

text \<open>An answer of the canvas service with the given elements and \<^verbatim>\<open>updated_at\<close>.\<close>

definition serviceAnswer :: "jsval list \<Rightarrow> jsval \<Rightarrow> Response" where
  "serviceAnswer elements updated_at =
     Responded True (Some (JObj [(''canvas'',
        JObj [(''elements'', JArr elements), (''updated_at'', updated_at)])]))"

text \<open>The identifiers of the elements of a document.\<close>

definition idsOf :: "jsval \<Rightarrow> jsval list" where
  "idsOf v = (case v of JArr xs \<Rightarrow> map (\<lambda>e. js_get e ''id'') xs | _ \<Rightarrow> [])"

text \<open>The payload that the polling tick builds from the \<^verbatim>\<open>canvas\<close> of an answer.\<close>

definition pollPayload :: "jsval \<Rightarrow> DrawPayload" where
  "pollPayload canvas = \<lparr>p_elements = js_get canvas ''elements'',
      p_appState = js_get canvas ''app_state'', p_files = js_get canvas ''files''\<rparr>"

text \<open>A cache that holds one element, stamped 100.\<close>

definition cachedAt100 :: IndexedDBService where
  "cachedAt100 = healthy (Some \<lparr>cd_elements = JArr [JObj [(''id'', JStr ''old'')]],
                                 cd_appState = JObj [], cd_timestamp = JNum (Fin 100)\<rparr>)"

text \<open>No request of the store fails.\<close>

definition noFaults :: "IndexedDBService \<Rightarrow> bool" where
  "noFaults s = (\<not> openFails s \<and> \<not> getFails s \<and> \<not> putFails s \<and> \<not> deleteFails s)"

text \<open>The \<^verbatim>\<open>canvas\<close> that start-up takes from an answer of the service: that of an ok answer
  with a JSON body whose \<^verbatim>\<open>canvas\<close> and \<^verbatim>\<open>canvas.elements\<close> are truthy.\<close>

definition backendData :: "Response \<Rightarrow> jsval option" where
  "backendData response =
     (case response of
        Rejected \<Rightarrow> None
      | Responded ok body \<Rightarrow>
          if \<not> ok then None
          else (case body of
                  None \<Rightarrow> None
                | Some data \<Rightarrow>
                    if js_nullish data then None
                    else if js_truthy (js_get data ''canvas'')
                            \<and> js_truthy (js_get (js_get data ''canvas'') ''elements'')
                         then Some (js_get data ''canvas'') else None))"

text \<open>The debounce timer, if one is pending, is not due at time \<open>t\<close> yet.\<close>

definition stillPending :: "nat \<Rightarrow> Component \<Rightarrow> bool" where
  "stillPending t c = (case saveTimeout c of None \<Rightarrow> True | Some (due, els, app) \<Rightarrow> t < due)"

text \<open>The appState with its collaborator set rebuilt: itself when its \<^verbatim>\<open>collaborators\<close> is a
  Map, and otherwise its own properties with \<^verbatim>\<open>collaborators\<close> set to a new empty Map.\<close>

definition savedAppState :: "jsval \<Rightarrow> jsval" where
  "savedAppState appState =
     (if js_truthy appState \<and> instanceof_Map (js_get appState ''collaborators'') then appState
      else JObj (AList.update ''collaborators'' (JMap []) (js_spread appState)))"

text \<open>The record expected for an edit: its elements and its appState, collaborator set
  rebuilt, stamped at the time the debounce timer fires. A record has no field for the
  files of the edit.\<close>

definition writeOf :: "edit \<Rightarrow> CanvasData" where
  "writeOf e =
     (case e of (t, elements, appState, files) \<Rightarrow>
        \<lparr>cd_elements = JArr elements, cd_appState = savedAppState appState,
         cd_timestamp = stamp (t + debounce_ms)\<rparr>)"

text \<open>An appState as the drawing surface passes it, with a Map of collaborators.\<close>

definition liveAppState :: jsval where
  "liveAppState = JObj [(''theme'', JStr ''light''), (''collaborators'', JMap [])]"

text \<open>Three edits, each less than 300 ms after the one before, with one, two and three
  elements and three different appStates.\<close>

definition threeEdits :: "edit list" where
  "threeEdits = [(10, [rectangle], JUndefined, JUndefined),
                 (200, [rectangle, rectangle], JObj [(''theme'', JStr ''dark'')], JUndefined),
                 (450, [rectangle, rectangle, rectangle], liveAppState,
                       JObj [(''f1'', JStr ''data'')])]"

text \<open>A platform whose text of a document is one letter per element and one per file.\<close>

definition filesPlatform :: Platform where
  "filesPlatform =
     plainPlatform\<lparr>JSON_stringify :=
       (\<lambda>v. (case js_get v ''elements'' of JArr xs \<Rightarrow> replicate (length xs) CHR ''e'' | _ \<Rightarrow> [])
             @ (case js_get v ''files'' of JObj kvs \<Rightarrow> replicate (length kvs) CHR ''f'' | _ \<Rightarrow> []))\<rparr>"

text \<open>An edit without files, and two edits that differ from it, and from each other, in
  their files only.\<close>

definition noFilesEdit :: edit where
  "noFilesEdit = (10, [rectangle], liveAppState, JObj [])"

definition fileEdit :: edit where
  "fileEdit = (100, [rectangle], liveAppState, JObj [(''f1'', JStr ''data'')])"

definition otherFileEdit :: edit where
  "otherFileEdit = (100, [rectangle], liveAppState, JObj [(''f1'', JStr ''other'')])"

text \<open>The mounted component with a write scheduled for time 100.\<close>

definition pendingStart :: Component where
  "pendingStart = (startState (healthy None) 0)\<lparr>saveTimeout := Some (100, JArr [], JObj [])\<rparr>"

text \<open>The change notification of the drawing surface, 10 ms after a scene with the one
  rectangle was handed to it.\<close>

definition echo :: edit where
  "echo = (10, [rectangle], JObj [(''collaborators'', JMap [])], JObj [])"

text \<open>The component after start-up at time 0, over an empty cache, with the service reporting
  the rectangle.\<close>

definition afterStartup :: Component where
  "afterStartup = initializeStorage plainPlatform (serviceAnswer [rectangle] (JNum (Fin 100)))
                    (startState (healthy None) 0)"

text \<open>The component after the same document arrived as a pushed event instead.\<close>

definition afterPush :: Component where
  "afterPush = handleCanvasUpdate plainPlatform
                 \<lparr>p_elements = JArr [rectangle], p_appState = JUndefined, p_files = JUndefined\<rparr>
                 (startState (healthy None) 0)"

text \<open>The fields of an element that the element defaults pass to \<^verbatim>\<open>Number\<close>.\<close>

definition numberFields :: "jsval \<Rightarrow> string list" where
  "numberFields element =
     [''opacity'', ''roughness'', ''strokeWidth'', ''angle'', ''version'']
     @ (if js_strict_eq (js_get (JObj (js_spread element)) ''type'') (JStr ''text'')
        then [''fontSize'', ''fontFamily'', ''lineHeight''] else [])"

text \<open>\<^verbatim>\<open>Number\<close> throws on one of those fields.\<close>

definition conversionThrows :: "jsval \<Rightarrow> bool" where
  "conversionThrows element =
     list_ex (\<lambda>k. toPrimitive_throws (js_get (JObj (js_spread element)) k)) (numberFields element)"

text \<open>A fully transparent rectangle of version 0.\<close>

definition zeroRectangle :: jsval where
  "zeroRectangle = JObj [(''id'', JStr ''a''), (''type'', JStr ''rectangle''),
                         (''opacity'', JNum (Fin 0)), (''version'', JNum (Fin 0))]"

text \<open>A transparent rectangle whose \<^verbatim>\<open>roughness\<close> is the object \<^verbatim>\<open>{toString: 1}\<close>, as a
  JSON body can carry it.\<close>

definition badElement :: jsval where
  "badElement = JObj [(''id'', JStr ''b''), (''type'', JStr ''rectangle''),
                      (''opacity'', JNum (Fin 0)),
                      (''roughness'', JObj [(''toString'', JNum (Fin 1))])]"

text \<open>A write of the record succeeds when the database opens and the \<^verbatim>\<open>put\<close> request does.\<close>

definition writeSucceeds :: "IndexedDBService \<Rightarrow> bool" where
  "writeSucceeds s = ((db s \<or> \<not> openFails s) \<and> \<not> putFails s)"

text \<open>The scene that \<^verbatim>\<open>handleCanvasUpdate\<close> hands to the drawing surface for a payload and
  the elements it shows; the second attempt passes the same scene without its files.\<close>

definition pushScene :: "DrawPayload \<Rightarrow> jsval list \<Rightarrow> Scene" where
  "pushScene payload elements =
     \<lparr>sc_elements = JArr elements, sc_appState = ensureCollaboratorsMap (p_appState payload),
      sc_files = Some (js_or (p_files payload) (JObj []))\<rparr>"

text \<open>The record that \<^verbatim>\<open>handleCanvasUpdate\<close> saves for a payload and the elements it shows.\<close>

definition pushRecord :: "DrawPayload \<Rightarrow> jsval list \<Rightarrow> nat \<Rightarrow> CanvasData" where
  "pushRecord payload elements now =
     \<lparr>cd_elements = JArr elements, cd_appState = js_or (p_appState payload) (JObj []),
      cd_timestamp = stamp now\<rparr>"

text \<open>An answer of the canvas service with the rectangle, the appState \<^verbatim>\<open>{theme: 'dark'}\<close>
  under the key \<^verbatim>\<open>app_state\<close> of the service, and \<^verbatim>\<open>updated_at\<close> 100.\<close>

definition darkAnswer :: Response where
  "darkAnswer =
     Responded True (Some (JObj [(''canvas'',
        JObj [(''elements'', JArr [rectangle]),
              (''app_state'', JObj [(''theme'', JStr ''dark'')]),
              (''updated_at'', JNum (Fin 100))])]))"

text \<open>The \<^verbatim>\<open>opacity\<close> of each element of a document.\<close>

definition opacitiesOf :: "jsval \<Rightarrow> jsval list" where
  "opacitiesOf v = (case v of JArr xs \<Rightarrow> map (\<lambda>e. js_get e ''opacity'') xs | _ \<Rightarrow> [])"

section \<open>Properties\<close>

subsection \<open>The local cache\<close>

lemma loadCanvasData_ok:
  "loadSucceeds s \<Longrightarrow> loadCanvasData s = (Inr (current s), s\<lparr>db := True\<rparr>)"
  by (cases "current s")
     (auto simp: loadSucceeds_def loadCanvasData_def ensureDb_def init_def split: option.splits)

lemma loadCanvasData_fails:
  "\<not> loadSucceeds s \<Longrightarrow> fst (loadCanvasData s) = Inl StorageError"
  by (auto simp: loadSucceeds_def loadCanvasData_def ensureDb_def init_def split: option.splits)

text \<open>
  C6, as the code has it. \<^verbatim>\<open>shouldUpdateData(newTimestamp)\<close> answers true exactly when the
  record cannot be read, or there is no record, or the stored timestamp is falsy (0, NaN,
  missing), or the comparison throws (the stored timestamp is an object that cannot be
  converted to a primitive), or \<^verbatim>\<open>newTimestamp\<close> is strictly greater than the stored
  timestamp, converted as \<^verbatim>\<open>Number\<close> does. For a stored timestamp that is a number other
  than 0 the answer is the strict comparison, so an equal timestamp gives false.
\<close>

theorem shouldUpdateData_iff:
  "fst (shouldUpdateData s2n n s) =
     (\<not> loadSucceeds s \<or>
      (case current s of
         None \<Rightarrow> True
       | Some d \<Rightarrow> \<not> js_truthy (cd_timestamp d) \<or> toPrimitive_throws (cd_timestamp d)
                   \<or> num_gt n (js_ToNumber s2n (cd_timestamp d))))
   \<and> (loadSucceeds s \<and> current s = Some d \<and> cd_timestamp d = JNum (Fin t) \<and> t \<noteq> 0
        \<longrightarrow> fst (shouldUpdateData s2n (Fin m) s) = (t < m))"
proof (cases "loadSucceeds s")
  case True
  then show ?thesis
    by (auto simp: shouldUpdateData_def getLastUpdateTime_def loadCanvasData_ok js_gt_def
             js_Number_def split: option.splits)
next
  case False
  then have "fst (loadCanvasData s) = Inl StorageError" by (rule loadCanvasData_fails)
  then show ?thesis using False
    by (cases "loadCanvasData s") (auto simp: shouldUpdateData_def getLastUpdateTime_def)
qed

text \<open>With the record stamped 100: 150 is newer, 100 is a tie and is refused. With a
  record whose timestamp is the object \<^verbatim>\<open>{toString: 1}\<close> the comparison throws and the answer
  is true.\<close>

theorem shouldUpdateData_witness:
  "fst (shouldUpdateData (\<lambda>x. NaN) (Fin 150)
         (healthy (Some \<lparr>cd_elements = JArr [], cd_appState = JObj [], cd_timestamp = JNum (Fin 100)\<rparr>)))
   \<and> \<not> fst (shouldUpdateData (\<lambda>x. NaN) (Fin 100)
         (healthy (Some \<lparr>cd_elements = JArr [], cd_appState = JObj [], cd_timestamp = JNum (Fin 100)\<rparr>)))
   \<and> fst (shouldUpdateData (\<lambda>x. NaN) (Fin 100)
         (healthy (Some \<lparr>cd_elements = JArr [], cd_appState = JObj [],
                           cd_timestamp = JObj [(''toString'', JNum (Fin 1))]\<rparr>)))"
  using shouldUpdateData_iff [of "\<lambda>x. NaN" "Fin 100"
      "healthy (Some \<lparr>cd_elements = JArr [], cd_appState = JObj [],
                        cd_timestamp = JObj [(''toString'', JNum (Fin 1))]\<rparr>)"
      "\<lparr>cd_elements = JArr [], cd_appState = JObj [], cd_timestamp = JNum (Fin 100)\<rparr>" 100 100]
    shouldUpdateData_iff [of "\<lambda>x. NaN" "Fin 150"
      "healthy (Some \<lparr>cd_elements = JArr [], cd_appState = JObj [], cd_timestamp = JNum (Fin 100)\<rparr>)"
      "\<lparr>cd_elements = JArr [], cd_appState = JObj [], cd_timestamp = JNum (Fin 100)\<rparr>" 100 100]
    shouldUpdateData_iff [of "\<lambda>x. NaN" "Fin 150"
      "healthy (Some \<lparr>cd_elements = JArr [], cd_appState = JObj [], cd_timestamp = JNum (Fin 100)\<rparr>)"
      "\<lparr>cd_elements = JArr [], cd_appState = JObj [], cd_timestamp = JNum (Fin 100)\<rparr>" 100 150]
  by (simp add: healthy_def loadSucceeds_def)

text \<open>
  C6 as stated fails: a record exists, its timestamp is 0, and \<^verbatim>\<open>newTimestamp\<close> is 0 too,
  not greater; \<^verbatim>\<open>!lastUpdate\<close> holds and the answer is true. The answer is also true for
  \<^verbatim>\<open>newTimestamp\<close> 50 over a record stamped 100 that cannot be read.
\<close>

theorem shouldUpdateData_tie_at_zero:
  "current (healthy (Some \<lparr>cd_elements = JArr [], cd_appState = JObj [], cd_timestamp = JNum (Fin 0)\<rparr>)) \<noteq> None
   \<and> \<not> num_gt (Fin 0) (Fin 0)
   \<and> fst (shouldUpdateData (\<lambda>x. NaN) (Fin 0)
        (healthy (Some \<lparr>cd_elements = JArr [], cd_appState = JObj [], cd_timestamp = JNum (Fin 0)\<rparr>)))
   \<and> \<not> num_gt (Fin 50) (Fin 100)
   \<and> fst (shouldUpdateData (\<lambda>x. NaN) (Fin 50)
        ((healthy (Some \<lparr>cd_elements = JArr [], cd_appState = JObj [], cd_timestamp = JNum (Fin 100)\<rparr>))
           \<lparr>getFails := True\<rparr>))"
  by (simp add: healthy_def shouldUpdateData_def getLastUpdateTime_def loadCanvasData_def
        ensureDb_def init_def js_gt_def js_Number_def)

lemma saveCanvasData_ok:
  "(db s \<or> \<not> openFails s) \<Longrightarrow> \<not> putFails s \<Longrightarrow>
   saveCanvasData now els app s =
     (Inr (), s\<lparr>db := True,
               current := Some \<lparr>cd_elements = els, cd_appState = app, cd_timestamp = stamp now\<rparr>,
               puts := puts s @ [\<lparr>cd_elements = els, cd_appState = app, cd_timestamp = stamp now\<rparr>]\<rparr>)"
  by (auto simp: saveCanvasData_def ensureDb_def init_def Let_def)

lemma repairCatch_cases:
  "fst (repairCatch s) = clearSucceeds s
   \<and> current (snd (repairCatch s)) = (if clearSucceeds s then None else current s)
   \<and> puts (snd (repairCatch s)) = puts s"
  by (auto simp: repairCatch_def clearCanvasData_def ensureDb_def init_def clearSucceeds_def)

lemma loadCanvasData_fails_state:
  "\<not> loadSucceeds s \<Longrightarrow> \<exists>s1. loadCanvasData s = (Inl StorageError, s1) \<and> current s1 = current s
      \<and> puts s1 = puts s \<and> clearSucceeds s1 = clearSucceeds s"
  by (auto simp: loadSucceeds_def loadCanvasData_def ensureDb_def init_def clearSucceeds_def)

lemma saveCanvasData_putFails:
  "db s \<Longrightarrow> putFails s \<Longrightarrow> saveCanvasData now els app s = (Inl StorageError, s)"
  by (simp add: saveCanvasData_def ensureDb_def Let_def)

lemma repairData_putFails:
  assumes l: "loadSucceeds s" and d: "current s = Some d" and p: "putFails s"
  shows "fst (repairData now s) = clearSucceeds s"
    and "current (snd (repairData now s)) = (if clearSucceeds s then None else current s)"
    and "puts (snd (repairData now s)) = puts s"
proof -
  have r: "repairData now s = repairCatch (s\<lparr>db := True\<rparr>)"
    using l d p by (simp add: repairData_def loadCanvasData_ok saveCanvasData_putFails Let_def)
  have c: "clearSucceeds (s\<lparr>db := True\<rparr>) = clearSucceeds s"
    using l by (auto simp: clearSucceeds_def loadSucceeds_def)
  show "fst (repairData now s) = clearSucceeds s"
    using repairCatch_cases [of "s\<lparr>db := True\<rparr>"] r c by simp
  show "current (snd (repairData now s)) = (if clearSucceeds s then None else current s)"
    using repairCatch_cases [of "s\<lparr>db := True\<rparr>"] r c by simp
  show "puts (snd (repairData now s)) = puts s"
    using repairCatch_cases [of "s\<lparr>db := True\<rparr>"] r c by simp
qed

text \<open>
  C8, as the code has it. \<^verbatim>\<open>repairData\<close> always returns a boolean. With no record it
  returns true and writes nothing. For a record it has read, it writes back (when the
  write succeeds) the record with elements that are no array replaced by the empty array,
  an appState that is falsy or not of \<^verbatim>\<open>typeof 'object'\<close> replaced by the empty object (an
  array is an object and is kept), and the timestamp set to the current time in every
  case; the record written has array elements, an object appState and a number timestamp.
  When the read fails, or the write of the repaired record does, it deletes the record and
  returns true if the delete succeeds, and returns false and leaves the store as it is
  otherwise.
\<close>

theorem repairData_cases:
  "(loadSucceeds s \<and> current s = None \<longrightarrow> repairData now s = (True, s\<lparr>db := True\<rparr>))
   \<and> (loadSucceeds s \<and> current s = Some d \<and> \<not> putFails s \<longrightarrow>
        repairData now s =
          (True, s\<lparr>db := True, current := Some (repaired now d),
                   puts := puts s @ [repaired now d]\<rparr>)
        \<and> isArray (cd_elements (repaired now d))
        \<and> js_truthy (cd_appState (repaired now d)) \<and> typeof_object (cd_appState (repaired now d))
        \<and> typeof_number (cd_timestamp (repaired now d)))
   \<and> (loadSucceeds s \<and> current s = Some d \<and> putFails s \<longrightarrow>
        fst (repairData now s) = clearSucceeds s
        \<and> current (snd (repairData now s)) = (if clearSucceeds s then None else current s)
        \<and> puts (snd (repairData now s)) = puts s)
   \<and> (\<not> loadSucceeds s \<longrightarrow>
        fst (repairData now s) = clearSucceeds s
        \<and> current (snd (repairData now s)) = (if clearSucceeds s then None else current s)
        \<and> puts (snd (repairData now s)) = puts s)"
proof (intro conjI impI)
  assume a: "loadSucceeds s \<and> current s = Some d \<and> putFails s"
  then show "fst (repairData now s) = clearSucceeds s"
    using repairData_putFails(1) [of s d now] by simp
  from a show "current (snd (repairData now s)) = (if clearSucceeds s then None else current s)"
    using repairData_putFails(2) [of s d now] by simp
  from a show "puts (snd (repairData now s)) = puts s"
    using repairData_putFails(3) [of s d now] by simp
next
  assume "loadSucceeds s \<and> current s = None"
  then show "repairData now s = (True, s\<lparr>db := True\<rparr>)"
    by (simp add: repairData_def loadCanvasData_ok)
next
  assume a: "loadSucceeds s \<and> current s = Some d \<and> \<not> putFails s"
  then show "repairData now s =
          (True, s\<lparr>db := True, current := Some (repaired now d),
                   puts := puts s @ [repaired now d]\<rparr>)"
    by (simp add: repairData_def loadCanvasData_ok saveCanvasData_ok repaired_def Let_def)
  show "isArray (cd_elements (repaired now d))" by (simp add: repaired_def)
  show "js_truthy (cd_appState (repaired now d))" by (simp add: repaired_def)
  show "typeof_object (cd_appState (repaired now d))" by (simp add: repaired_def)
  show "typeof_number (cd_timestamp (repaired now d))" by (simp add: repaired_def stamp_def)
next
  assume a: "\<not> loadSucceeds s"
  then obtain s1 where l: "loadCanvasData s = (Inl StorageError, s1)"
    and c: "current s1 = current s" "puts s1 = puts s" "clearSucceeds s1 = clearSucceeds s"
    using loadCanvasData_fails_state by blast
  have r: "repairData now s = repairCatch s1" using l by (simp add: repairData_def)
  show "fst (repairData now s) = clearSucceeds s" using r c repairCatch_cases [of s1] by simp
  show "current (snd (repairData now s)) = (if clearSucceeds s then None else current s)"
    using r c repairCatch_cases [of s1] by simp
  show "puts (snd (repairData now s)) = puts s" using r c repairCatch_cases [of s1] by simp
qed

text \<open>An empty store, a record with three wrong shapes, and stores whose write, read, and
  read and delete fail.\<close>

theorem repairData_witness:
  "repairData 5 (healthy None) = (True, (healthy None)\<lparr>db := True\<rparr>)
   \<and> repairData 5 (healthy (Some \<lparr>cd_elements = JStr ''x'', cd_appState = JNum (Fin 7), cd_timestamp = JNull\<rparr>))
       = (True, (healthy None)\<lparr>db := True,
            current := Some \<lparr>cd_elements = JArr [], cd_appState = JObj [], cd_timestamp = JNum (Fin 5)\<rparr>,
            puts := [\<lparr>cd_elements = JArr [], cd_appState = JObj [], cd_timestamp = JNum (Fin 5)\<rparr>]\<rparr>)
   \<and> fst (repairData 5 ((healthy (Some arrayState))\<lparr>putFails := True\<rparr>))
   \<and> current (snd (repairData 5 ((healthy (Some arrayState))\<lparr>putFails := True\<rparr>))) = None
   \<and> fst (repairData 5 ((healthy (Some arrayState))\<lparr>getFails := True\<rparr>))
   \<and> current (snd (repairData 5 ((healthy (Some arrayState))\<lparr>getFails := True\<rparr>))) = None
   \<and> \<not> fst (repairData 5 ((healthy (Some arrayState))\<lparr>getFails := True, deleteFails := True\<rparr>))"
  using repairData_cases [where s = "healthy None" and now = 5]
    repairData_cases [where s = "healthy (Some \<lparr>cd_elements = JStr ''x'', cd_appState = JNum (Fin 7), cd_timestamp = JNull\<rparr>)"
        and d = "\<lparr>cd_elements = JStr ''x'', cd_appState = JNum (Fin 7), cd_timestamp = JNull\<rparr>" and now = 5]
    repairData_cases [where s = "(healthy (Some arrayState))\<lparr>putFails := True\<rparr>" and d = arrayState and now = 5]
    repairData_cases [where s = "(healthy (Some arrayState))\<lparr>getFails := True\<rparr>" and now = 5]
    repairData_cases [where s = "(healthy (Some arrayState))\<lparr>getFails := True, deleteFails := True\<rparr>" and now = 5]
  by (simp add: healthy_def loadSucceeds_def repaired_def stamp_def clearSucceeds_def)

text \<open>
  C8 as stated fails: an appState that is an array is no mapping, and \<^verbatim>\<open>repairData\<close> writes
  it back as it is, since \<^verbatim>\<open>typeof [] === 'object'\<close>.
\<close>

theorem repairData_keeps_array_appState:
  "\<not> spec_mapping (JArr [JNum (Fin 1)])
   \<and> map_option cd_appState (current (snd (repairData 5 (healthy (Some arrayState)))))
       = Some (JArr [JNum (Fin 1)])"
  by (simp add: spec_mapping_def arrayState_def healthy_def repairData_def loadCanvasData_def
        saveCanvasData_def ensureDb_def init_def Let_def)

subsection \<open>Element defaults\<close>

lemma assign_Cons: "assign obj ((k, v) # kvs) = assign (AList.update k v obj) kvs"
  by (simp add: assign_def)

lemma js_get_assign:
  "js_get (JObj (assign obj kvs)) k =
     (case map_of (rev kvs) k of Some v \<Rightarrow> v | None \<Rightarrow> js_get (JObj obj) k)"
proof (induction kvs arbitrary: obj)
  case Nil
  then show ?case by (simp add: assign_def)
next
  case (Cons kv kvs)
  obtain k' v' where kv: "kv = (k', v')" by (cases kv)
  show ?case
    unfolding kv assign_Cons Cons.IH
    by (simp add: map_add_def update_conv' split: option.splits)
qed

lemma js_get_if_assign:
  "map_of (rev kvs) k = None \<Longrightarrow>
   js_get (JObj (if c then assign obj kvs else obj)) k = js_get (JObj obj) k"
  by (simp add: js_get_assign del: js_get.simps)

lemma js_get_spread:
  "js_get element k \<noteq> JUndefined \<Longrightarrow> js_get (JObj (js_spread element)) k = js_get element k"
  by (cases element) simp_all

lemma number_or_None: "(number_or P x d = None) = toPrimitive_throws x"
  by (simp add: number_or_def js_Number_def)

lemma number_or_zero: "number_or P (JNum (Fin 0)) d = Some (JNum (Fin d))"
  by (simp add: number_or_def js_Number_def js_or_def)

lemma js_get_baseElementOf:
  "js_get (JObj (baseElementOf P now index element opacity roughness strokeWidth angle version)) ''opacity'' = opacity"
  "js_get (JObj (baseElementOf P now index element opacity roughness strokeWidth angle version)) ''version'' = version"
  "js_get (JObj (baseElementOf P now index element opacity roughness strokeWidth angle version)) ''id''
     = js_or (js_get (JObj (js_spread element)) ''id'')
         (JStr (''element_'' @ show_nat now @ ''_'' @ show_nat index))"
  by (simp_all add: baseElementOf_def Let_def js_get_assign del: js_get.simps)

lemma textBlock_None:
  "(textBlock P cleanElement obj = None) =
     (js_strict_eq (js_get cleanElement ''type'') (JStr ''text'')
      \<and> (toPrimitive_throws (js_get cleanElement ''fontSize'')
           \<or> toPrimitive_throws (js_get cleanElement ''fontFamily'')
           \<or> toPrimitive_throws (js_get cleanElement ''lineHeight'')))"
  by (auto simp: textBlock_def Let_def bind_eq_None_conv number_or_None simp del: js_get.simps)

lemma js_get_textBlock:
  assumes "textBlock P cleanElement obj = Some obj'"
    and "k \<notin> {''text'', ''fontSize'', ''fontFamily'', ''textAlign'', ''verticalAlign'',
               ''containerId'', ''originalText'', ''lineHeight''}"
  shows "js_get (JObj obj') k = js_get (JObj obj) k"
  using assms
  by (auto simp: textBlock_def Let_def bind_eq_Some_conv js_get_assign
      simp del: js_get.simps split: if_splits)

lemma js_get_linearBlock:
  "k \<notin> {''points'', ''lastCommittedPoint'', ''startBinding'', ''endBinding'',
          ''startArrowhead'', ''endArrowhead''} \<Longrightarrow>
   js_get (JObj (linearBlock cleanElement obj)) k = js_get (JObj obj) k"
  by (auto simp: linearBlock_def Let_def js_get_assign simp del: js_get.simps)

lemma js_get_freedrawBlock:
  "k \<notin> {''points'', ''pressures'', ''simulatePressure'', ''lastCommittedPoint''} \<Longrightarrow>
   js_get (JObj (freedrawBlock cleanElement obj)) k = js_get (JObj obj) k"
  by (auto simp: freedrawBlock_def Let_def js_get_assign simp del: js_get.simps)

lemma normalizeElement_None:
  "(normalizeElement P now index element = None) = conversionThrows element"
  by (auto simp: normalizeElement_def Let_def conversionThrows_def numberFields_def
        number_or_None bind_eq_None_conv textBlock_None
      simp del: js_get.simps)

lemma normalizeElement_Some:
  assumes "normalizeElement P now index element = Some e'"
  obtains opacity roughness strokeWidth angle version textElement where
    "number_or P (js_get (JObj (js_spread element)) ''opacity'') 100 = Some opacity"
    "number_or P (js_get (JObj (js_spread element)) ''version'') 1 = Some version"
    "textBlock P (JObj (js_spread element))
       (baseElementOf P now index element opacity roughness strokeWidth angle version)
       = Some textElement"
    "e' = JObj (freedrawBlock (JObj (js_spread element))
                 (linearBlock (JObj (js_spread element)) textElement))"
  using assms by (auto simp: normalizeElement_def Let_def bind_eq_Some_conv simp del: js_get.simps)

lemma normalizeElement_opacity:
  assumes "normalizeElement P now index element = Some e'"
  shows "number_or P (js_get (JObj (js_spread element)) ''opacity'') 100 = Some (js_get e' ''opacity'')"
proof -
  from assms obtain opacity roughness strokeWidth angle version textElement where
    n: "number_or P (js_get (JObj (js_spread element)) ''opacity'') 100 = Some opacity"
    and t: "textBlock P (JObj (js_spread element))
       (baseElementOf P now index element opacity roughness strokeWidth angle version)
       = Some textElement"
    and e: "e' = JObj (freedrawBlock (JObj (js_spread element))
                 (linearBlock (JObj (js_spread element)) textElement))"
    by (rule normalizeElement_Some)
  have "js_get e' ''opacity'' = opacity"
    unfolding e
    by (simp add: js_get_freedrawBlock js_get_linearBlock js_get_textBlock [OF t]
          js_get_baseElementOf del: js_get.simps)
  with n show ?thesis by simp
qed

lemma normalizeElement_version:
  assumes "normalizeElement P now index element = Some e'"
  shows "number_or P (js_get (JObj (js_spread element)) ''version'') 1 = Some (js_get e' ''version'')"
proof -
  from assms obtain opacity roughness strokeWidth angle version textElement where
    n: "number_or P (js_get (JObj (js_spread element)) ''version'') 1 = Some version"
    and t: "textBlock P (JObj (js_spread element))
       (baseElementOf P now index element opacity roughness strokeWidth angle version)
       = Some textElement"
    and e: "e' = JObj (freedrawBlock (JObj (js_spread element))
                 (linearBlock (JObj (js_spread element)) textElement))"
    by (rule normalizeElement_Some)
  have "js_get e' ''version'' = version"
    unfolding e
    by (simp add: js_get_freedrawBlock js_get_linearBlock js_get_textBlock [OF t]
          js_get_baseElementOf del: js_get.simps)
  with n show ?thesis by simp
qed

lemma normalizeElement_id:
  assumes "normalizeElement P now index element = Some e'"
  shows "js_get e' ''id''
     = js_or (js_get (JObj (js_spread element)) ''id'')
         (JStr (''element_'' @ show_nat now @ ''_'' @ show_nat index))"
proof -
  from assms obtain opacity roughness strokeWidth angle version textElement where
    t: "textBlock P (JObj (js_spread element))
       (baseElementOf P now index element opacity roughness strokeWidth angle version)
       = Some textElement"
    and e: "e' = JObj (freedrawBlock (JObj (js_spread element))
                 (linearBlock (JObj (js_spread element)) textElement))"
    by (rule normalizeElement_Some)
  show ?thesis
    unfolding e
    by (simp add: js_get_freedrawBlock js_get_linearBlock js_get_textBlock [OF t]
          js_get_baseElementOf del: js_get.simps)
qed

lemma those_map_None: "(those (map f xs) = None) = list_ex (\<lambda>x. f x = None) xs"
  by (induction xs) (auto split: option.splits)

lemma those_map_Some:
  "those (map f xs) = Some ys \<Longrightarrow> length ys = length xs \<and> (\<forall>i < length xs. f (xs ! i) = Some (ys ! i))"
proof (induction xs arbitrary: ys)
  case Nil
  then show ?case by simp
next
  case (Cons x xs)
  then obtain y ys' where y: "f x = Some y" and t: "those (map f xs) = Some ys'" and ys: "ys = y # ys'"
    by (auto split: option.splits)
  from Cons.IH [OF t] y ys show ?case by (auto simp: nth_Cons split: nat.splits)
qed

lemma processElements_None:
  "(processElements P now elements = None) = list_ex conversionThrows elements"
proof -
  have "snd ` set (List.enumerate 0 elements) = set elements"
    using map_snd_enumerate [of 0 elements] by (metis set_map)
  from this [symmetric]
  have "(\<exists>x\<in>set (List.enumerate 0 elements). conversionThrows (snd x))
        = (\<exists>x\<in>set elements. conversionThrows x)"
    by auto
  then show ?thesis
    by (simp add: processElements_def those_map_None list_ex_iff normalizeElement_None split_beta)
qed

lemma processElements_nth:
  assumes "processElements P now elements = Some processed"
  shows "length processed = length elements"
    and "i < length elements \<Longrightarrow> normalizeElement P now i (elements ! i) = Some (processed ! i)"
  using those_map_Some [OF assms [unfolded processElements_def]]
  by (simp_all add: nth_enumerate_eq)


text \<open>
  C10, as the code has it. The element defaults yield an element unless \<^verbatim>\<open>Number\<close> throws
  on one of the element's numeric fields, and whenever they yield one for an element whose
  \<^verbatim>\<open>opacity\<close> is present and is the number 0, its opacity is 100, never 0; likewise a
  \<^verbatim>\<open>version\<close> of 0 becomes 1: \<^verbatim>\<open>Number(0) || 100\<close> takes the default. The same holds for
  every element of the list that \<^verbatim>\<open>handleCanvasUpdate\<close> processes, which yields a list of
  the same length unless \<^verbatim>\<open>Number\<close> throws for one of the elements; then no element of the
  document is processed.
\<close>

theorem normalizeElement_zero_opacity:
  "(normalizeElement P now index element = None) = conversionThrows element
   \<and> (js_get element ''opacity'' = JNum (Fin 0)
        \<and> normalizeElement P now index element = Some e' \<longrightarrow>
      js_get e' ''opacity'' = JNum (Fin 100))
   \<and> (js_get element ''version'' = JNum (Fin 0)
        \<and> normalizeElement P now index element = Some e' \<longrightarrow>
      js_get e' ''version'' = JNum (Fin 1))
   \<and> (processElements P now elements = None) = list_ex conversionThrows elements
   \<and> (processElements P now elements = Some processed \<longrightarrow> length processed = length elements)
   \<and> (processElements P now elements = Some processed \<and> i < length elements
        \<and> js_get (elements ! i) ''opacity'' = JNum (Fin 0) \<longrightarrow>
      js_get (processed ! i) ''opacity'' = JNum (Fin 100))
   \<and> (processElements P now elements = Some processed \<and> i < length elements
        \<and> js_get (elements ! i) ''version'' = JNum (Fin 0) \<longrightarrow>
      js_get (processed ! i) ''version'' = JNum (Fin 1))"
proof -
  have opacity: "js_get r ''opacity'' = JNum (Fin 100)"
    if "js_get e ''opacity'' = JNum (Fin 0)" and "normalizeElement P now k e = Some r" for k e r
  proof -
    from that(1) have "js_get (JObj (js_spread e)) ''opacity'' = JNum (Fin 0)"
      using js_get_spread [of e "''opacity''"] by simp
    with normalizeElement_opacity [OF that(2)] show ?thesis
      by (simp only: number_or_zero option.inject)
  qed
  have version: "js_get r ''version'' = JNum (Fin 1)"
    if "js_get e ''version'' = JNum (Fin 0)" and "normalizeElement P now k e = Some r" for k e r
  proof -
    from that(1) have "js_get (JObj (js_spread e)) ''version'' = JNum (Fin 0)"
      using js_get_spread [of e "''version''"] by simp
    with normalizeElement_version [OF that(2)] show ?thesis
      by (simp only: number_or_zero option.inject)
  qed
  show ?thesis
  proof (intro conjI impI)
    show "(normalizeElement P now index element = None) = conversionThrows element"
      by (rule normalizeElement_None)
    show "(processElements P now elements = None) = list_ex conversionThrows elements"
      by (rule processElements_None)
    show "js_get e' ''opacity'' = JNum (Fin 100)"
      if "js_get element ''opacity'' = JNum (Fin 0) \<and> normalizeElement P now index element = Some e'"
      using that opacity by blast
    show "js_get e' ''version'' = JNum (Fin 1)"
      if "js_get element ''version'' = JNum (Fin 0) \<and> normalizeElement P now index element = Some e'"
      using that version by blast
    show "length processed = length elements" if "processElements P now elements = Some processed"
      using processElements_nth(1) [OF that] .
    show "js_get (processed ! i) ''opacity'' = JNum (Fin 100)"
      if "processElements P now elements = Some processed \<and> i < length elements
          \<and> js_get (elements ! i) ''opacity'' = JNum (Fin 0)"
      using that opacity processElements_nth(2) [of P now elements processed i] by blast
    show "js_get (processed ! i) ''version'' = JNum (Fin 1)"
      if "processElements P now elements = Some processed \<and> i < length elements
          \<and> js_get (elements ! i) ''version'' = JNum (Fin 0)"
      using that version processElements_nth(2) [of P now elements processed i] by blast
  qed
qed

text \<open>A transparent rectangle of version 0, alone in its list; and one on which
  \<^verbatim>\<open>Number\<close> throws.\<close>

theorem normalizeElement_zero_opacity_witness:
  "map_option (\<lambda>e. js_get e ''opacity'') (normalizeElement plainPlatform 5 0 zeroRectangle)
     = Some (JNum (Fin 100))
   \<and> map_option (\<lambda>e. js_get e ''version'') (normalizeElement plainPlatform 5 0 zeroRectangle)
     = Some (JNum (Fin 1))
   \<and> map_option (map (\<lambda>e. js_get e ''opacity'')) (processElements plainPlatform 5 [zeroRectangle])
     = Some [JNum (Fin 100)]
   \<and> map_option (map (\<lambda>e. js_get e ''version'')) (processElements plainPlatform 5 [zeroRectangle])
     = Some [JNum (Fin 1)]
   \<and> normalizeElement plainPlatform 5 0 badElement = None
   \<and> processElements plainPlatform 5 [zeroRectangle, badElement] = None"
proof -
  have z: "\<not> conversionThrows zeroRectangle"
    by (simp add: conversionThrows_def numberFields_def zeroRectangle_def)
  have b: "conversionThrows badElement"
    by (simp add: conversionThrows_def numberFields_def badElement_def)
  have f: "js_get zeroRectangle ''opacity'' = JNum (Fin 0)"
    "js_get zeroRectangle ''version'' = JNum (Fin 0)"
    by (simp_all add: zeroRectangle_def)
  from normalizeElement_zero_opacity [where P = plainPlatform and now = 5 and index = 0
      and element = zeroRectangle and elements = "[zeroRectangle]" and e' = JNull
      and processed = "[]" and i = 0] z
  have "normalizeElement plainPlatform 5 0 zeroRectangle \<noteq> None"
    "processElements plainPlatform 5 [zeroRectangle] \<noteq> None" by simp_all
  then obtain e' processed where
    e: "normalizeElement plainPlatform 5 0 zeroRectangle = Some e'"
    and p: "processElements plainPlatform 5 [zeroRectangle] = Some processed" by auto
  from normalizeElement_zero_opacity [where P = plainPlatform and now = 5 and index = 0
      and element = zeroRectangle and e' = e' and elements = "[zeroRectangle]"
      and processed = processed and i = 0] e p f
  have r: "js_get e' ''opacity'' = JNum (Fin 100)" "js_get e' ''version'' = JNum (Fin 1)"
    "length processed = 1"
    "js_get (processed ! 0) ''opacity'' = JNum (Fin 100)"
    "js_get (processed ! 0) ''version'' = JNum (Fin 1)"
    by simp_all
  from r(3) obtain x where x: "processed = [x]" by (cases processed) auto
  from normalizeElement_zero_opacity [where P = plainPlatform and now = 5 and index = 0
      and element = badElement and elements = "[zeroRectangle, badElement]" and e' = JNull
      and processed = "[]" and i = 0] b
  have n: "normalizeElement plainPlatform 5 0 badElement = None"
    "processElements plainPlatform 5 [zeroRectangle, badElement] = None" by simp_all
  show ?thesis using e p r x n by simp
qed

text \<open>
  C10 as stated fails: the element has opacity 0, its \<^verbatim>\<open>roughness\<close> is an object on which
  \<^verbatim>\<open>Number\<close> throws, and the element defaults yield nothing for it; the handler leaves the
  component as it was.
\<close>

theorem transparent_element_not_normalized:
  "js_get badElement ''opacity'' = JNum (Fin 0)
   \<and> normalizeElement plainPlatform 5 0 badElement = None
   \<and> handleCanvasUpdate plainPlatform
        \<lparr>p_elements = JArr [badElement], p_appState = JUndefined, p_files = JUndefined\<rparr>
        (startState (healthy None) 5) = startState (healthy None) 5"
proof -
  have b: "conversionThrows badElement"
    by (simp add: conversionThrows_def numberFields_def badElement_def)
  then have n: "normalizeElement plainPlatform 5 0 badElement = None"
    by (simp add: normalizeElement_None)
  from b have "processElements plainPlatform 5 [badElement] = None"
    by (simp add: processElements_None)
  then have "handleCanvasUpdate plainPlatform
        \<lparr>p_elements = JArr [badElement], p_appState = JUndefined, p_files = JUndefined\<rparr>
        (startState (healthy None) 5) = startState (healthy None) 5"
    by (simp add: handleCanvasUpdate_def startState_def)
  with n show ?thesis by (simp add: badElement_def)
qed

subsection \<open>The collaborators of every scene\<close>

lemma processElements_single:
  assumes "\<not> conversionThrows e"
  shows "\<exists>r. processElements P now [e] = Some [r]"
proof -
  from assms have "processElements P now [e] \<noteq> None"
    by (simp add: processElements_None)
  then obtain ys where ys: "processElements P now [e] = Some ys" by auto
  from processElements_nth(1) [OF ys] obtain r where "ys = [r]"
    by (cases ys) auto
  with ys show ?thesis by simp
qed

lemma rectangle_converts: "\<not> conversionThrows rectangle"
  by (simp add: conversionThrows_def numberFields_def rectangle_def)

lemma updateScene_throws_plain [simp]: "updateScene_throws plainPlatform scene = False"
  by (simp add: plainPlatform_def)

lemma ensureCollaboratorsMap_collaborators:
  "js_get (ensureCollaboratorsMap appState) ''collaborators'' =
     (if js_truthy appState \<and> instanceof_Map (js_get appState ''collaborators'')
      then js_get appState ''collaborators'' else JMap [])"
  by (simp add: ensureCollaboratorsMap_def update_conv')

lemma ensureCollaboratorsMap_Map:
  "instanceof_Map (js_get (ensureCollaboratorsMap appState) ''collaborators'')"
  by (simp add: ensureCollaboratorsMap_def update_conv')

lemma scenes_saveLogged [simp]: "scenes (saveLogged els app c) = scenes c"
  by (simp add: saveLogged_def)

lemma scenes_clearLogged [simp]: "scenes (clearLogged c) = scenes c"
  by (simp add: clearLogged_def)

lemma scenes_applied [simp]: "scenes (applied scene c) = scenes c @ [scene]"
  by (simp add: applied_def)

lemma scenes_initCatch [simp]: "scenes (initCatch c) = scenes c"
  by (simp add: initCatch_def)

lemma handleCanvasUpdate_scenes:
  "list_all collaboratorsIsMap (scenes c) \<Longrightarrow>
   list_all collaboratorsIsMap (scenes (handleCanvasUpdate P payload c))"
  by (simp add: handleCanvasUpdate_def Let_def collaboratorsIsMap_def ensureCollaboratorsMap_Map
        split: option.splits)

lemma pollTick_scenes:
  "list_all collaboratorsIsMap (scenes c) \<Longrightarrow>
   list_all collaboratorsIsMap (scenes (pollTick P response c))"
  by (auto simp: pollTick_def Let_def handleCanvasUpdate_scenes split: Response.splits option.splits)

lemma restoreScene_scenes:
  "list_all collaboratorsIsMap (scenes c) \<Longrightarrow>
   list_all collaboratorsIsMap (scenes (restoreScene P d c))"
  by (cases d) (simp add: restoreScene_def Let_def collaboratorsIsMap_def ensureCollaboratorsMap_Map)

lemma initializeStorage_scenes:
  "list_all collaboratorsIsMap (scenes c) \<Longrightarrow>
   list_all collaboratorsIsMap (scenes (initializeStorage P response c))"
  by (auto simp: initializeStorage_def restoreScene_scenes split: prod.splits sum.splits option.splits)

text \<open>
  C9. Whatever appState arrives, \<^verbatim>\<open>ensureCollaboratorsMap\<close> returns one whose
  \<^verbatim>\<open>collaborators\<close> is a Map: the Map that was there, or a new empty one in place of an
  array, a plain object or nothing. Every scene that the push handler, the polling tick
  and the start-up restore hand to the drawing surface carries such an appState.
\<close>

theorem collaborators_always_Map:
  "instanceof_Map (js_get (ensureCollaboratorsMap appState) ''collaborators'')
   \<and> js_get (ensureCollaboratorsMap appState) ''collaborators'' =
       (if js_truthy appState \<and> instanceof_Map (js_get appState ''collaborators'')
        then js_get appState ''collaborators'' else JMap [])
   \<and> (list_all collaboratorsIsMap (scenes c) \<longrightarrow>
        list_all collaboratorsIsMap (scenes (handleCanvasUpdate P payload c))
        \<and> list_all collaboratorsIsMap (scenes (pollTick P response c))
        \<and> list_all collaboratorsIsMap (scenes (initializeStorage P response c)))"
  using ensureCollaboratorsMap_collaborators [of appState]
  by (simp add: ensureCollaboratorsMap_Map handleCanvasUpdate_scenes pollTick_scenes
        initializeStorage_scenes)

text \<open>A pushed document whose collaborators arrive as an array.\<close>

theorem collaborators_always_Map_witness:
  "map sc_appState (scenes (handleCanvasUpdate plainPlatform
      \<lparr>p_elements = JArr [rectangle], p_appState = JObj [(''theme'', JStr ''dark''), (''collaborators'', JArr [])],
       p_files = JUndefined\<rparr> (startState (healthy None) 0)))
     = [JObj [(''theme'', JStr ''dark''), (''collaborators'', JMap [])]]
   \<and> list_all collaboratorsIsMap (scenes (handleCanvasUpdate plainPlatform
      \<lparr>p_elements = JArr [rectangle], p_appState = JObj [(''theme'', JStr ''dark''), (''collaborators'', JArr [])],
       p_files = JUndefined\<rparr> (startState (healthy None) 0)))"
proof -
  obtain r where r: "processElements plainPlatform 0 [rectangle] = Some [r]"
    using processElements_single [OF rectangle_converts] by blast
  show ?thesis
    using collaborators_always_Map [of JNull "startState (healthy None) 0" plainPlatform
      "\<lparr>p_elements = JArr [rectangle], p_appState = JObj [(''theme'', JStr ''dark''), (''collaborators'', JArr [])],
       p_files = JUndefined\<rparr>" Rejected] r
    by (simp add: startState_def handleCanvasUpdate_def Let_def
          ensureCollaboratorsMap_def updateScene_throws_plain)
qed

subsection \<open>The polling tick\<close>

text \<open>
  C5, as the code has it. The tick runs every 1000 ms. A rejected fetch, an answer that is
  not ok and a body that is no JSON leave the component as it is. Otherwise the tick
  forwards the document to \<^verbatim>\<open>handleCanvasUpdate\<close>, and records the token as the last one
  seen, exactly when the \<^verbatim>\<open>canvas\<close> and its \<^verbatim>\<open>updated_at\<close> are truthy and the token is not
  identical to the last one seen: for number tokens and for string tokens, when the token
  is not 0 (not empty) and differs from the last one, in either direction.
\<close>

theorem pollTick_cases:
  "poll_period_ms = 1000
   \<and> pollTick P Rejected c = c
   \<and> pollTick P (Responded False body) c = c
   \<and> pollTick P (Responded True None) c = c
   \<and> (\<not> js_nullish data \<longrightarrow>
        pollTick P (Responded True (Some data)) c =
          (if pollForwards (js_get data ''canvas'') (lastUpdateTime c)
           then handleCanvasUpdate P (pollPayload (js_get data ''canvas''))
                  (c\<lparr>lastUpdateTime := js_get (js_get data ''canvas'') ''updated_at''\<rparr>)
           else c))
   \<and> (js_get canvas ''updated_at'' = JNum (Fin a) \<longrightarrow>
        pollForwards canvas (JNum (Fin b)) = (a \<noteq> 0 \<and> a \<noteq> b))
   \<and> (js_get canvas ''updated_at'' = JStr x \<longrightarrow>
        pollForwards canvas (JStr y) = (x \<noteq> [] \<and> x \<noteq> y))"
proof -
  have t: "js_truthy canvas" if "js_get canvas k \<noteq> JUndefined" for k
    using that by (cases canvas) auto
  show ?thesis
    using t [of "''updated_at''"]
    by (auto simp: pollTick_def pollForwards_def pollPayload_def Let_def poll_period_ms_def)
qed

text \<open>A failed fetch, a first answer with token \<^verbatim>\<open>t1\<close>, the same token again, and the
  number token 150 after 100 and after 150.\<close>

theorem pollTick_witness:
  "pollTick plainPlatform Rejected (startState (healthy None) 0) = startState (healthy None) 0
   \<and> lastUpdateTime (pollTick plainPlatform (serviceAnswer [rectangle] (JStr ''t1''))
        (startState (healthy None) 0)) = JStr ''t1''
   \<and> pollTick plainPlatform (serviceAnswer [rectangle] (JStr ''t1''))
        ((startState (healthy None) 0)\<lparr>lastUpdateTime := JStr ''t1''\<rparr>)
      = (startState (healthy None) 0)\<lparr>lastUpdateTime := JStr ''t1''\<rparr>
   \<and> pollForwards (JObj [(''elements'', JArr [rectangle]), (''updated_at'', JNum (Fin 150))])
        (JNum (Fin 100))
   \<and> \<not> pollForwards (JObj [(''elements'', JArr [rectangle]), (''updated_at'', JNum (Fin 150))])
        (JNum (Fin 150))"
proof -
  obtain r where r: "processElements plainPlatform 0 [rectangle] = Some [r]"
    using processElements_single [OF rectangle_converts] by blast
  show ?thesis
    using pollTick_cases [of plainPlatform "startState (healthy None) 0" undefined
      "JObj [(''canvas'', JObj [(''elements'', JArr [rectangle]), (''updated_at'', JStr ''t1'')])]"
      "JObj [(''elements'', JArr [rectangle]), (''updated_at'', JStr ''t1'')]" 0 0 "''t1''" "''t1''"]
    pollTick_cases [of plainPlatform "(startState (healthy None) 0)\<lparr>lastUpdateTime := JStr ''t1''\<rparr>" undefined
      "JObj [(''canvas'', JObj [(''elements'', JArr [rectangle]), (''updated_at'', JStr ''t1'')])]"
      "JObj [(''elements'', JArr [rectangle]), (''updated_at'', JStr ''t1'')]" 0 0 "''t1''" "[]"]
    pollTick_cases [of plainPlatform "startState (healthy None) 0" undefined JNull
      "JObj [(''elements'', JArr [rectangle]), (''updated_at'', JNum (Fin 150))]" 150 100 "[]" "[]"]
    pollTick_cases [of plainPlatform "startState (healthy None) 0" undefined JNull
      "JObj [(''elements'', JArr [rectangle]), (''updated_at'', JNum (Fin 150))]" 150 150 "[]" "[]"]
    r
    by (simp add: serviceAnswer_def startState_def pollForwards_def pollPayload_def
         handleCanvasUpdate_def Let_def applied_def saveLogged_def updateScene_throws_plain)
qed

text \<open>
  C5 as stated fails: the channel has seen 150, the service reports 100, which is not
  newer, and the tick forwards the document and records 100.
\<close>

theorem pollTick_forwards_older_token:
  "\<not> num_gt (Fin 100) (Fin 150)
   \<and> lastUpdateTime (pollTick plainPlatform (serviceAnswer [rectangle] (JNum (Fin 100)))
        ((startState (healthy None) 0)\<lparr>lastUpdateTime := JNum (Fin 150)\<rparr>)) = JNum (Fin 100)
   \<and> length (scenes (pollTick plainPlatform (serviceAnswer [rectangle] (JNum (Fin 100)))
        ((startState (healthy None) 0)\<lparr>lastUpdateTime := JNum (Fin 150)\<rparr>))) = 1"
proof -
  obtain r where r: "processElements plainPlatform 0 [rectangle] = Some [r]"
    using processElements_single [OF rectangle_converts] by blast
  show ?thesis
    using r
    by (simp add: serviceAnswer_def startState_def pollTick_def pollForwards_def
          handleCanvasUpdate_def Let_def applied_def saveLogged_def updateScene_throws_plain)
qed

subsection \<open>Remote observations\<close>

lemma clearCanvasData_ok:
  "clearSucceeds s \<Longrightarrow> clearCanvasData s = (Inr (), s\<lparr>db := True, current := None\<rparr>)"
  by (auto simp: clearSucceeds_def clearCanvasData_def ensureDb_def init_def)

lemma current_saveCanvasData:
  "current (snd (saveCanvasData now els app s)) =
     (if writeSucceeds s
      then Some \<lparr>cd_elements = els, cd_appState = app, cd_timestamp = stamp now\<rparr>
      else current s)"
  by (auto simp: saveCanvasData_def ensureDb_def init_def Let_def writeSucceeds_def)

lemma current_clearCanvasData:
  "current (snd (clearCanvasData s)) = (if clearSucceeds s then None else current s)"
  by (auto simp: clearCanvasData_def ensureDb_def init_def clearSucceeds_def)

lemma current_saveLogged:
  "current (storage (saveLogged els app c)) =
     (if writeSucceeds (storage c)
      then Some \<lparr>cd_elements = els, cd_appState = app, cd_timestamp = stamp (clock c)\<rparr>
      else current (storage c))"
  by (simp add: saveLogged_def current_saveCanvasData)

lemma current_clearLogged:
  "current (storage (clearLogged c)) = (if clearSucceeds (storage c) then None else current (storage c))"
  by (simp add: clearLogged_def current_clearCanvasData)

lemma applied_fields [simp]:
  "storage (applied scene c) = storage c" "clock (applied scene c) = clock c"
  by (simp_all add: applied_def)

text \<open>
  C1, as the code has it. \<^verbatim>\<open>handleCanvasUpdate\<close> receives every pushed document and every
  polled document that passes the token test, and it compares no timestamp: what it does
  depends on the payload, the drawing surface and the store's requests only, never on the
  record or the timestamp that the cache holds. It does nothing while the drawing surface
  is not ready, and nothing when \<^verbatim>\<open>Number\<close> throws on a numeric field of one of the
  elements. Otherwise a document with elements is shown, with the element defaults filled
  in, if the drawing surface accepts the scene with or without its files, and is then
  saved with the current time as its timestamp if the write succeeds; a document whose
  elements are missing, no array or empty empties the surface, if it accepts the empty
  scene, and the record is then deleted if the delete succeeds. When the surface accepts
  no scene, nothing is shown and the store is left as it is. The elements shown are, one
  by one, what the element defaults yield for the elements of the document.
\<close>

theorem handleCanvasUpdate_unconditional:
  "(\<not> apiReady c \<longrightarrow> handleCanvasUpdate P payload c = c)
   \<and> (processElements P (clock c) xs = None) = list_ex conversionThrows xs
   \<and> (apiReady c \<and> p_elements payload = JArr xs \<and> xs \<noteq> [] \<and> list_ex conversionThrows xs \<longrightarrow>
        handleCanvasUpdate P payload c = c)
   \<and> (apiReady c \<and> p_elements payload = JArr xs \<and> xs \<noteq> []
        \<and> processElements P (clock c) xs = Some processed
        \<and> (\<not> updateScene_throws P (pushScene payload processed)
             \<or> \<not> updateScene_throws P ((pushScene payload processed)\<lparr>sc_files := None\<rparr>)) \<longrightarrow>
        shownElements (handleCanvasUpdate P payload c) = Some (JArr processed)
        \<and> current (storage (handleCanvasUpdate P payload c))
            = (if writeSucceeds (storage c) then Some (pushRecord payload processed (clock c))
               else current (storage c)))
   \<and> (apiReady c \<and> p_elements payload = JArr xs \<and> xs \<noteq> []
        \<and> processElements P (clock c) xs = Some processed
        \<and> updateScene_throws P (pushScene payload processed)
        \<and> updateScene_throws P ((pushScene payload processed)\<lparr>sc_files := None\<rparr>) \<longrightarrow>
        scenes (handleCanvasUpdate P payload c) = scenes c
        \<and> storage (handleCanvasUpdate P payload c) = storage c)
   \<and> (apiReady c \<and> (\<not> isArray (p_elements payload) \<or> p_elements payload = JArr [])
        \<and> \<not> updateScene_throws P (pushScene payload []) \<longrightarrow>
        shownElements (handleCanvasUpdate P payload c) = Some (JArr [])
        \<and> current (storage (handleCanvasUpdate P payload c))
            = (if clearSucceeds (storage c) then None else current (storage c)))
   \<and> (apiReady c \<and> (\<not> isArray (p_elements payload) \<or> p_elements payload = JArr [])
        \<and> updateScene_throws P (pushScene payload []) \<longrightarrow>
        scenes (handleCanvasUpdate P payload c) = scenes c
        \<and> storage (handleCanvasUpdate P payload c) = storage c)
   \<and> (processElements P (clock c) xs = Some processed \<and> i < length xs \<longrightarrow>
        length processed = length xs
        \<and> normalizeElement P (clock c) i (xs ! i) = Some (processed ! i))"
proof -
  have e: "(case p_elements payload of JArr xs \<Rightarrow> xs | _ \<Rightarrow> []) = []"
    if "\<not> isArray (p_elements payload) \<or> p_elements payload = JArr []"
    using that by (cases "p_elements payload") auto
  show ?thesis
  proof (intro conjI impI)
    show "handleCanvasUpdate P payload c = c" if "\<not> apiReady c"
      using that by (simp add: handleCanvasUpdate_def)
    show "(processElements P (clock c) xs = None) = list_ex conversionThrows xs"
      by (rule processElements_None)
    show "length processed = length xs"
      if "processElements P (clock c) xs = Some processed \<and> i < length xs"
      using that processElements_nth(1) [of P "clock c" xs processed] by simp
    show "normalizeElement P (clock c) i (xs ! i) = Some (processed ! i)"
      if "processElements P (clock c) xs = Some processed \<and> i < length xs"
      using that processElements_nth(2) [of P "clock c" xs processed i] by simp
    show "handleCanvasUpdate P payload c = c"
      if "apiReady c \<and> p_elements payload = JArr xs \<and> xs \<noteq> [] \<and> list_ex conversionThrows xs"
      using that processElements_None [of P "clock c" xs]
      by (simp add: handleCanvasUpdate_def)
  next
    assume a: "apiReady c \<and> p_elements payload = JArr xs \<and> xs \<noteq> []
        \<and> processElements P (clock c) xs = Some processed
        \<and> (\<not> updateScene_throws P (pushScene payload processed)
             \<or> \<not> updateScene_throws P ((pushScene payload processed)\<lparr>sc_files := None\<rparr>))"
    then show "shownElements (handleCanvasUpdate P payload c) = Some (JArr processed)"
      by (auto simp: handleCanvasUpdate_def Let_def pushScene_def shownElements_def)
    from a show "current (storage (handleCanvasUpdate P payload c))
            = (if writeSucceeds (storage c) then Some (pushRecord payload processed (clock c))
               else current (storage c))"
      by (auto simp: handleCanvasUpdate_def Let_def pushScene_def pushRecord_def current_saveLogged)
  next
    assume a: "apiReady c \<and> p_elements payload = JArr xs \<and> xs \<noteq> []
        \<and> processElements P (clock c) xs = Some processed
        \<and> updateScene_throws P (pushScene payload processed)
        \<and> updateScene_throws P ((pushScene payload processed)\<lparr>sc_files := None\<rparr>)"
    then show "scenes (handleCanvasUpdate P payload c) = scenes c"
      by (simp add: handleCanvasUpdate_def Let_def pushScene_def)
    from a show "storage (handleCanvasUpdate P payload c) = storage c"
      by (simp add: handleCanvasUpdate_def Let_def pushScene_def)
  next
    assume a: "apiReady c \<and> (\<not> isArray (p_elements payload) \<or> p_elements payload = JArr [])
        \<and> \<not> updateScene_throws P (pushScene payload [])"
    then show "shownElements (handleCanvasUpdate P payload c) = Some (JArr [])"
      using e by (simp add: handleCanvasUpdate_def Let_def pushScene_def shownElements_def)
    from a show "current (storage (handleCanvasUpdate P payload c))
            = (if clearSucceeds (storage c) then None else current (storage c))"
      using e by (simp add: handleCanvasUpdate_def Let_def pushScene_def current_clearLogged)
  next
    assume a: "apiReady c \<and> (\<not> isArray (p_elements payload) \<or> p_elements payload = JArr [])
        \<and> updateScene_throws P (pushScene payload [])"
    then show "scenes (handleCanvasUpdate P payload c) = scenes c"
      using e by (simp add: handleCanvasUpdate_def Let_def pushScene_def)
    from a show "storage (handleCanvasUpdate P payload c) = storage c"
      using e by (simp add: handleCanvasUpdate_def Let_def pushScene_def)
  qed
qed


lemma rectangle_processed:
  "\<exists>r. processElements P now [rectangle] = Some [r] \<and> js_get r ''id'' = JStr ''r1''"
proof -
  obtain r where r: "processElements P now [rectangle] = Some [r]"
    using processElements_single [OF rectangle_converts] by blast
  from processElements_nth(2) [OF r, of 0]
  have "normalizeElement P now 0 rectangle = Some r" by simp
  from normalizeElement_id [OF this] have "js_get r ''id'' = JStr ''r1''"
    by (simp add: rectangle_def js_or_def)
  with r show ?thesis by blast
qed

text \<open>Over a cache stamped 100, at time 7: a rectangle; a payload without elements; an
  element on which \<^verbatim>\<open>Number\<close> throws; a drawing surface that is not ready; and one that
  accepts no scene.\<close>

theorem handleCanvasUpdate_witness:
  "map_option idsOf (shownElements (handleCanvasUpdate plainPlatform
       \<lparr>p_elements = JArr [rectangle], p_appState = JUndefined, p_files = JUndefined\<rparr>
       (startState cachedAt100 7))) = Some [JStr ''r1'']
   \<and> map_option cd_timestamp (current (storage (handleCanvasUpdate plainPlatform
       \<lparr>p_elements = JArr [rectangle], p_appState = JUndefined, p_files = JUndefined\<rparr>
       (startState cachedAt100 7)))) = Some (JNum (Fin 7))
   \<and> shownElements (handleCanvasUpdate plainPlatform
       \<lparr>p_elements = JUndefined, p_appState = JUndefined, p_files = JUndefined\<rparr>
       (startState cachedAt100 7)) = Some (JArr [])
   \<and> current (storage (handleCanvasUpdate plainPlatform
       \<lparr>p_elements = JUndefined, p_appState = JUndefined, p_files = JUndefined\<rparr>
       (startState cachedAt100 7))) = None
   \<and> handleCanvasUpdate plainPlatform
       \<lparr>p_elements = JArr [badElement], p_appState = JUndefined, p_files = JUndefined\<rparr>
       (startState cachedAt100 7) = startState cachedAt100 7
   \<and> handleCanvasUpdate plainPlatform
       \<lparr>p_elements = JArr [rectangle], p_appState = JUndefined, p_files = JUndefined\<rparr>
       ((startState cachedAt100 7)\<lparr>apiReady := False\<rparr>) = (startState cachedAt100 7)\<lparr>apiReady := False\<rparr>
   \<and> scenes (handleCanvasUpdate (plainPlatform\<lparr>updateScene_throws := \<lambda>scene. True\<rparr>)
       \<lparr>p_elements = JArr [rectangle], p_appState = JUndefined, p_files = JUndefined\<rparr>
       (startState cachedAt100 7)) = []
   \<and> scenes (handleCanvasUpdate (plainPlatform\<lparr>updateScene_throws := \<lambda>scene. True\<rparr>)
       \<lparr>p_elements = JUndefined, p_appState = JUndefined, p_files = JUndefined\<rparr>
       (startState cachedAt100 7)) = []"
proof -
  let ?c = "startState cachedAt100 7"
  let ?rect = "\<lparr>p_elements = JArr [rectangle], p_appState = JUndefined, p_files = JUndefined\<rparr>"
  let ?none = "\<lparr>p_elements = JUndefined, p_appState = JUndefined, p_files = JUndefined\<rparr>"
  let ?bad = "\<lparr>p_elements = JArr [badElement], p_appState = JUndefined, p_files = JUndefined\<rparr>"
  let ?T = "plainPlatform\<lparr>updateScene_throws := \<lambda>scene. True\<rparr>"
  obtain r where r: "processElements plainPlatform 7 [rectangle] = Some [r]"
    and i: "js_get r ''id'' = JStr ''r1''"
    using rectangle_processed by blast
  obtain r' where r': "processElements ?T 7 [rectangle] = Some [r']"
    using rectangle_processed by blast
  have c: "apiReady ?c" "clock ?c = 7" "writeSucceeds (storage ?c)" "clearSucceeds (storage ?c)"
    "scenes ?c = []"
    by (simp_all add: startState_def cachedAt100_def healthy_def writeSucceeds_def clearSucceeds_def)
  have b: "list_ex conversionThrows [badElement]"
    by (simp add: conversionThrows_def numberFields_def badElement_def)
  have 1: "shownElements (handleCanvasUpdate plainPlatform ?rect ?c) = Some (JArr [r])"
    "current (storage (handleCanvasUpdate plainPlatform ?rect ?c)) = Some (pushRecord ?rect [r] 7)"
    using handleCanvasUpdate_unconditional [of ?c plainPlatform ?rect "[rectangle]" "[r]"] c r
    by simp_all
  have 2: "shownElements (handleCanvasUpdate plainPlatform ?none ?c) = Some (JArr [])"
    "current (storage (handleCanvasUpdate plainPlatform ?none ?c)) = None"
    using handleCanvasUpdate_unconditional [of ?c plainPlatform ?none "[]" "[]"] c
    by simp_all
  have 3: "handleCanvasUpdate plainPlatform ?bad ?c = ?c"
    using handleCanvasUpdate_unconditional [of ?c plainPlatform ?bad "[badElement]" "[]"] c b
    by simp
  have 4: "handleCanvasUpdate plainPlatform ?rect (?c\<lparr>apiReady := False\<rparr>) = ?c\<lparr>apiReady := False\<rparr>"
    using handleCanvasUpdate_unconditional [of "?c\<lparr>apiReady := False\<rparr>" plainPlatform ?rect "[]" "[]"]
    by simp
  have 5: "scenes (handleCanvasUpdate ?T ?rect ?c) = []"
    using handleCanvasUpdate_unconditional [of ?c ?T ?rect "[rectangle]" "[r']"] c r'
    by simp
  have 6: "scenes (handleCanvasUpdate ?T ?none ?c) = []"
    using handleCanvasUpdate_unconditional [of ?c ?T ?none "[]" "[]"] c
    by simp
  show ?thesis
    using 1 2 3 4 5 6 i by (simp add: idsOf_def pushRecord_def stamp_def)
qed

text \<open>
  C1 as stated fails: the cache holds the element \<^verbatim>\<open>old\<close> stamped 100 and
  \<^verbatim>\<open>shouldUpdateData(100)\<close> is false, yet the polled document with \<^verbatim>\<open>updated_at\<close> 100 is
  shown and replaces the record.
\<close>

theorem stale_observation_applied:
  "\<not> fst (shouldUpdateData (\<lambda>s. NaN) (Fin 100) cachedAt100)
   \<and> map_option (idsOf \<circ> cd_elements) (current cachedAt100) = Some [JStr ''old'']
   \<and> map_option idsOf (shownElements (pollTick plainPlatform (serviceAnswer [rectangle] (JNum (Fin 100)))
        (startState cachedAt100 7))) = Some [JStr ''r1'']
   \<and> map_option (idsOf \<circ> cd_elements) (current (storage (pollTick plainPlatform
        (serviceAnswer [rectangle] (JNum (Fin 100))) (startState cachedAt100 7)))) = Some [JStr ''r1'']"
proof -
  obtain r where r: "processElements plainPlatform 7 [rectangle] = Some [r]"
    and i: "js_get r ''id'' = JStr ''r1''"
    using rectangle_processed by blast
  have "\<not> fst (shouldUpdateData (\<lambda>s. NaN) (Fin 100) cachedAt100)"
    by (simp add: cachedAt100_def healthy_def shouldUpdateData_def getLastUpdateTime_def
          loadCanvasData_def ensureDb_def init_def js_gt_def js_Number_def)
  moreover have "map_option (idsOf \<circ> cd_elements) (current cachedAt100) = Some [JStr ''old'']"
    by (simp add: cachedAt100_def healthy_def idsOf_def)
  moreover have "pollTick plainPlatform (serviceAnswer [rectangle] (JNum (Fin 100)))
        (startState cachedAt100 7)
      = handleCanvasUpdate plainPlatform
          \<lparr>p_elements = JArr [rectangle], p_appState = JUndefined, p_files = JUndefined\<rparr>
          ((startState cachedAt100 7)\<lparr>lastUpdateTime := JNum (Fin 100)\<rparr>)"
    by (simp add: pollTick_def serviceAnswer_def pollForwards_def startState_def)
  moreover have "map_option idsOf (shownElements (handleCanvasUpdate plainPlatform
          \<lparr>p_elements = JArr [rectangle], p_appState = JUndefined, p_files = JUndefined\<rparr>
          ((startState cachedAt100 7)\<lparr>lastUpdateTime := JNum (Fin 100)\<rparr>))) = Some [JStr ''r1'']"
    using r i
    by (simp add: handleCanvasUpdate_def Let_def startState_def applied_def
          saveLogged_def shownElements_def idsOf_def)
  moreover have "map_option (idsOf \<circ> cd_elements) (current (storage (handleCanvasUpdate plainPlatform
          \<lparr>p_elements = JArr [rectangle], p_appState = JUndefined, p_files = JUndefined\<rparr>
          ((startState cachedAt100 7)\<lparr>lastUpdateTime := JNum (Fin 100)\<rparr>)))) = Some [JStr ''r1'']"
    using r i
    by (simp add: handleCanvasUpdate_def Let_def startState_def applied_def
          saveLogged_def cachedAt100_def healthy_def saveCanvasData_def ensureDb_def init_def
          idsOf_def)
  ultimately show ?thesis by simp
qed

subsection \<open>Start-up\<close>

lemma init_ok: "\<not> openFails s \<Longrightarrow> init s = (Inr (), s\<lparr>db := True\<rparr>)"
  by (simp add: init_def)

lemma repairData_none:
  "loadSucceeds s \<Longrightarrow> current s = None \<Longrightarrow> repairData now s = (True, s\<lparr>db := True\<rparr>)"
  by (simp add: repairData_def loadCanvasData_ok)

lemma repairData_some:
  "loadSucceeds s \<Longrightarrow> current s = Some d \<Longrightarrow> \<not> putFails s \<Longrightarrow>
   repairData now s = (True, s\<lparr>db := True, current := Some (repaired now d),
                                puts := puts s @ [repaired now d]\<rparr>)"
  by (simp add: repairData_def loadCanvasData_ok saveCanvasData_ok repaired_def Let_def)

lemma fetchBackendData_fst: "fst (fetchBackendData now response s) = backendData response"
  by (simp add: fetchBackendData_def backendData_def Let_def split: Response.splits option.splits)

lemma fetchBackendData_None:
  "backendData response = None \<Longrightarrow> fetchBackendData now response s = (None, s)"
  by (auto simp: fetchBackendData_def backendData_def Let_def split: Response.splits option.splits if_splits)

lemma fetchBackendData_Some:
  "backendData response = Some canvas \<Longrightarrow>
   fetchBackendData now response s =
     (Some canvas, snd (saveCanvasData now (js_get canvas ''elements'')
                          (js_or (js_get canvas ''appState'') (JObj [])) s))"
  by (auto simp: fetchBackendData_def backendData_def Let_def split: Response.splits option.splits if_splits)

lemma repaired_truthy: "js_truthy (cd_elements (repaired now d))"
  by (cases "cd_elements d") (simp_all add: repaired_def)

lemma initializeStorage_remote:
  assumes b: "backendData response = Some canvas" and r: "apiReady c"
    and nf: "noFaults (storage c)" and u: "updateScene_throws P = (\<lambda>scene. False)"
  shows "scenes (initializeStorage P response c) =
        scenes c @ [\<lparr>sc_elements = js_get canvas ''elements'',
                      sc_appState = ensureCollaboratorsMap (js_get canvas ''appState''),
                      sc_files = Some (js_or (js_get canvas ''files'') (JObj []))\<rparr>]"
    and "current (storage (initializeStorage P response c)) =
          Some \<lparr>cd_elements = js_get canvas ''elements'',
                 cd_appState = js_or (js_get canvas ''appState'') (JObj []),
                 cd_timestamp = stamp (clock c)\<rparr>"
    and "isUpdatingFromRestore (initializeStorage P response c) = isUpdatingFromRestore c"
    and "flagTimers (initializeStorage P response c) = flagTimers c"
  using nf b r u
  by (cases "current (storage c)";
      simp add: initializeStorage_def noFaults_def init_ok repairData_none repairData_some
          loadSucceeds_def fetchBackendData_Some restoreScene_def Let_def saveCanvasData_ok)+

lemma initializeStorage_local:
  assumes b: "backendData response = None" and d: "current (storage c) = Some d"
    and r: "apiReady c" and nf: "noFaults (storage c)"
    and u: "updateScene_throws P = (\<lambda>scene. False)"
  shows "scenes (initializeStorage P response c) =
        scenes c @ [\<lparr>sc_elements = cd_elements (repaired (clock c) d),
                      sc_appState = ensureCollaboratorsMap (cd_appState (repaired (clock c) d)),
                      sc_files = Some (JObj [])\<rparr>]"
    and "current (storage (initializeStorage P response c)) = Some (repaired (clock c) d)"
  using nf b r u d
  by (simp_all add: initializeStorage_def noFaults_def init_ok repairData_some
          loadSucceeds_def fetchBackendData_None restoreScene_def Let_def loadCanvasData_ok
          repaired_truthy js_or_def)

lemma initializeStorage_nothing:
  assumes b: "backendData response = None" and d: "current (storage c) = None"
    and nf: "noFaults (storage c)"
  shows "scenes (initializeStorage P response c) = scenes c"
    and "current (storage (initializeStorage P response c)) = None"
  using nf b d
  by (simp_all add: initializeStorage_def noFaults_def init_ok repairData_none
          loadSucceeds_def fetchBackendData_None loadCanvasData_ok)

lemma backendData_serviceAnswer:
  "backendData (serviceAnswer elements token)
     = Some (JObj [(''elements'', JArr elements), (''updated_at'', token)])"
  by (simp add: backendData_def serviceAnswer_def)

lemma rectangle_opacity:
  "\<exists>r. processElements P now [rectangle] = Some [r] \<and> js_get r ''opacity'' = JNum (Fin 100)"
proof -
  obtain r where r: "processElements P now [rectangle] = Some [r]"
    using processElements_single [OF rectangle_converts] by blast
  from processElements_nth(2) [OF r, of 0]
  have "normalizeElement P now 0 rectangle = Some r" by simp
  from normalizeElement_opacity [OF this] have "js_get r ''opacity'' = JNum (Fin 100)"
    by (simp add: rectangle_def number_or_def js_Number_def js_or_def)
  with r show ?thesis by blast
qed

text \<open>
  C4 at start-up. The service answers with the rectangle, given by identifier, type and
  geometry, and the appState \<^verbatim>\<open>{theme: 'dark'}\<close> under \<^verbatim>\<open>app_state\<close>. \<^verbatim>\<open>initializeStorage\<close>
  shows the rectangle as it came, without opacity, and reads \<^verbatim>\<open>canvas.appState\<close>, which is
  not there: the scene and the record lose the theme. The polling tick, given the same
  answer, shows the rectangle with the element defaults (opacity 100) and keeps the theme
  in the scene and in the record.
\<close>

theorem startup_skips_element_defaults:
  "map sc_elements (scenes (initializeStorage plainPlatform darkAnswer (startState (healthy None) 7)))
     = [JArr [rectangle]]
   \<and> opacitiesOf (JArr [rectangle]) = [JUndefined]
   \<and> map sc_appState (scenes (initializeStorage plainPlatform darkAnswer (startState (healthy None) 7)))
     = [JObj [(''collaborators'', JMap [])]]
   \<and> map_option cd_appState
        (current (storage (initializeStorage plainPlatform darkAnswer (startState (healthy None) 7))))
     = Some (JObj [])
   \<and> map (opacitiesOf \<circ> sc_elements)
        (scenes (pollTick plainPlatform darkAnswer (startState (healthy None) 7)))
     = [[JNum (Fin 100)]]
   \<and> map sc_appState (scenes (pollTick plainPlatform darkAnswer (startState (healthy None) 7)))
     = [JObj [(''theme'', JStr ''dark''), (''collaborators'', JMap [])]]
   \<and> map_option cd_appState
        (current (storage (pollTick plainPlatform darkAnswer (startState (healthy None) 7))))
     = Some (JObj [(''theme'', JStr ''dark'')])"
proof -
  obtain r where r: "processElements plainPlatform 7 [rectangle] = Some [r]"
    and o: "js_get r ''opacity'' = JNum (Fin 100)"
    using rectangle_opacity by blast
  have s: "initializeStorage plainPlatform darkAnswer (startState (healthy None) 7)
      = (startState (healthy None) 7)\<lparr>
          scenes := [\<lparr>sc_elements = JArr [rectangle],
                      sc_appState = JObj [(''collaborators'', JMap [])],
                      sc_files = Some (JObj [])\<rparr>],
          storage := (healthy (Some \<lparr>cd_elements = JArr [rectangle], cd_appState = JObj [],
                                      cd_timestamp = stamp 7\<rparr>))\<lparr>db := True,
                         puts := [\<lparr>cd_elements = JArr [rectangle], cd_appState = JObj [],
                                    cd_timestamp = stamp 7\<rparr>]\<rparr>\<rparr>"
    by (simp add: initializeStorage_def init_def startState_def healthy_def
          repairData_def loadCanvasData_def ensureDb_def fetchBackendData_def darkAnswer_def
          saveCanvasData_def restoreScene_def Let_def js_or_def ensureCollaboratorsMap_def)
  have p: "pollTick plainPlatform darkAnswer (startState (healthy None) 7)
      = (startState (healthy None) 7)\<lparr>
          lastUpdateTime := JNum (Fin 100),
          scenes := [\<lparr>sc_elements = JArr [r],
                      sc_appState = JObj [(''theme'', JStr ''dark''), (''collaborators'', JMap [])],
                      sc_files = Some (JObj [])\<rparr>],
          isUpdatingFromRestore := True, flagTimers := [107],
          storage := (healthy (Some \<lparr>cd_elements = JArr [r],
                                      cd_appState = JObj [(''theme'', JStr ''dark'')],
                                      cd_timestamp = stamp 7\<rparr>))\<lparr>db := True,
                         puts := [\<lparr>cd_elements = JArr [r],
                                    cd_appState = JObj [(''theme'', JStr ''dark'')],
                                    cd_timestamp = stamp 7\<rparr>]\<rparr>\<rparr>"
    using r
    by (simp add: pollTick_def pollForwards_def darkAnswer_def handleCanvasUpdate_def
          startState_def healthy_def saveCanvasData_def ensureDb_def init_def applied_def
          saveLogged_def Let_def js_or_def ensureCollaboratorsMap_def)
  show ?thesis
    unfolding s p using o
    by (simp add: startState_def healthy_def opacitiesOf_def rectangle_def)
qed

text \<open>
  C7, as the code has it. From an empty cache, with the service reporting one element at
  \<^verbatim>\<open>updated_at\<close> 100, start-up ends with the drawing surface showing exactly that element,
  and the record of the cache holds it with the time of the local clock as its timestamp.
\<close>

theorem startup_scenario:
  "updateScene_throws P = (\<lambda>scene. False) \<longrightarrow>
     shownElements (initializeStorage P (serviceAnswer [rect] (JNum (Fin 100)))
        (startState (healthy None) now)) = Some (JArr [rect])
     \<and> current (storage (initializeStorage P (serviceAnswer [rect] (JNum (Fin 100)))
        (startState (healthy None) now)))
        = Some \<lparr>cd_elements = JArr [rect], cd_appState = JObj [], cd_timestamp = stamp now\<rparr>"
proof
  assume u: "updateScene_throws P = (\<lambda>scene. False)"
  have c: "apiReady (startState (healthy None) now)" "noFaults (storage (startState (healthy None) now))"
    by (simp_all add: startState_def healthy_def noFaults_def)
  note r = initializeStorage_remote(1,2) [OF backendData_serviceAnswer c u, of "[rect]" "JNum (Fin 100)"]
  show "shownElements (initializeStorage P (serviceAnswer [rect] (JNum (Fin 100)))
        (startState (healthy None) now)) = Some (JArr [rect])
     \<and> current (storage (initializeStorage P (serviceAnswer [rect] (JNum (Fin 100)))
        (startState (healthy None) now)))
        = Some \<lparr>cd_elements = JArr [rect], cd_appState = JObj [], cd_timestamp = stamp now\<rparr>"
    using r by (simp add: shownElements_def startState_def js_or_def)
qed

text \<open>The scenario at local time 7.\<close>

theorem startup_scenario_witness:
  "shownElements (initializeStorage plainPlatform (serviceAnswer [rectangle] (JNum (Fin 100)))
        (startState (healthy None) 7)) = Some (JArr [rectangle])
   \<and> map_option cd_timestamp (current (storage (initializeStorage plainPlatform
        (serviceAnswer [rectangle] (JNum (Fin 100))) (startState (healthy None) 7))))
        = Some (JNum (Fin 7))"
  using startup_scenario [of plainPlatform rectangle 7]
  by (simp add: plainPlatform_def stamp_def)

text \<open>
  C7 as stated fails: at local time 1700000000000 the record is stamped 1700000000000, not
  with the 100 of the service.
\<close>

theorem startup_stamps_local_clock:
  "map_option cd_timestamp (current (storage (initializeStorage plainPlatform
        (serviceAnswer [rectangle] (JNum (Fin 100))) (startState (healthy None) 1700000000000))))
        = Some (JNum (Fin 1700000000000))
   \<and> JNum (Fin 1700000000000) \<noteq> JNum (Fin 100)"
proof -
  have c: "apiReady (startState (healthy None) 1700000000000)"
    "noFaults (storage (startState (healthy None) 1700000000000))"
    "updateScene_throws plainPlatform = (\<lambda>scene. False)"
    by (simp_all add: startState_def healthy_def noFaults_def plainPlatform_def)
  show ?thesis
    using initializeStorage_remote(2) [OF backendData_serviceAnswer c, of "[rectangle]" "JNum (Fin 100)"]
    by (simp add: startState_def stamp_def)
qed

subsection \<open>Change notifications\<close>

lemma ensureCollaboratorsMap_saved: "ensureCollaboratorsMap appState = savedAppState appState"
proof (cases "js_truthy appState")
  case True
  then show ?thesis by (simp add: ensureCollaboratorsMap_def savedAppState_def)
next
  case False
  then have "js_spread appState = []"
    by (cases appState rule: js_truthy.cases) (simp_all add: indexed_def)
  with False show ?thesis by (simp add: ensureCollaboratorsMap_def savedAppState_def)
qed

lemma savedAppState_properties:
  "js_truthy a \<and> instanceof_Map (js_get a ''collaborators'') \<Longrightarrow> savedAppState a = a"
  "k \<noteq> ''collaborators'' \<Longrightarrow> js_get (savedAppState a) k = js_get (JObj (js_spread a)) k"
  "instanceof_Map (js_get (savedAppState a) ''collaborators'')"
proof -
  show "savedAppState a = a" if "js_truthy a \<and> instanceof_Map (js_get a ''collaborators'')"
    using that by (simp add: savedAppState_def)
  show "js_get (savedAppState a) k = js_get (JObj (js_spread a)) k" if "k \<noteq> ''collaborators''"
  proof (cases "js_truthy a \<and> instanceof_Map (js_get a ''collaborators'')")
    case True
    then obtain kvs where "a = JObj kvs" by (cases a) auto
    with True show ?thesis by (simp add: savedAppState_def)
  next
    case False
    with that show ?thesis by (auto simp: savedAppState_def update_conv')
  qed
  show "instanceof_Map (js_get (savedAppState a) ''collaborators'')"
    by (simp add: savedAppState_def update_conv')
qed

lemma advance_quiet:
  assumes "\<not> isUpdatingFromRestore c" and "stillPending t c"
  shows "\<not> isUpdatingFromRestore (advance t c)" and "saveTimeout (advance t c) = saveTimeout c"
    and "storage (advance t c) = storage c" and "lastSaveData (advance t c) = lastSaveData c"
    and "clock (advance t c) = max t (clock c)"
  using assms
  by (auto simp: advance_def fireFlagTimers_def fireSaveTimeout_def stillPending_def
           split: option.splits)

lemma notify_fresh:
  assumes f: "\<not> isUpdatingFromRestore c" and p: "stillPending (fst e) c"
    and h: "hashOf P e \<noteq> lastSaveData c" and t: "clock c \<le> fst e"
  shows "\<not> isUpdatingFromRestore (notify P e c)"
    and "saveTimeout (notify P e c)
           = Some (fst e + debounce_ms, cd_elements (writeOf e), cd_appState (writeOf e))"
    and "storage (notify P e c) = storage c"
    and "lastSaveData (notify P e c) = hashOf P e"
    and "clock (notify P e c) = fst e"
proof -
  obtain tm els app files where e: "e = (tm, els, app, files)" by (cases e)
  note a = advance_quiet [OF f p]
  show "\<not> isUpdatingFromRestore (notify P e c)"
    using a h e by (simp add: notify_def onChange_def Let_def hashOf_def)
  show "saveTimeout (notify P e c)
           = Some (fst e + debounce_ms, cd_elements (writeOf e), cd_appState (writeOf e))"
    using a h e t
    by (simp add: notify_def onChange_def Let_def hashOf_def writeOf_def max_def
          ensureCollaboratorsMap_saved)
  show "storage (notify P e c) = storage c"
    using a h e by (simp add: notify_def onChange_def Let_def hashOf_def)
  show "lastSaveData (notify P e c) = hashOf P e"
    using a h e by (simp add: notify_def onChange_def Let_def hashOf_def)
  show "clock (notify P e c) = fst e"
    using a h e t by (simp add: notify_def onChange_def Let_def hashOf_def max_def)
qed

lemma notifyAll_burst:
  assumes "\<not> isUpdatingFromRestore c" and "stillPending (fst e) c"
    and "hashOf P e \<noteq> lastSaveData c" and "clock c \<le> fst e"
    and "burst P (fst e) (hashOf P e) es"
  shows "saveTimeout (notifyAll P (e # es) c)
           = Some (fst (last (e # es)) + debounce_ms, cd_elements (writeOf (last (e # es))),
                   cd_appState (writeOf (last (e # es))))
         \<and> storage (notifyAll P (e # es) c) = storage c
         \<and> \<not> isUpdatingFromRestore (notifyAll P (e # es) c)
         \<and> lastSaveData (notifyAll P (e # es) c) = hashOf P (last (e # es))"
  using assms
proof (induction es arbitrary: c e)
  case Nil
  then show ?case using notify_fresh [of c e P] by simp
next
  case (Cons e' es)
  note n = notify_fresh [OF Cons.prems(1-4)]
  from Cons.prems(5) have b: "fst e \<le> fst e'" "fst e' < fst e + debounce_ms"
    "hashOf P e' \<noteq> hashOf P e" "burst P (fst e') (hashOf P e') es" by simp_all
  have p: "stillPending (fst e') (notify P e c)"
    using n(2) b(2) by (simp add: stillPending_def)
  have "saveTimeout (notifyAll P (e' # es) (notify P e c))
           = Some (fst (last (e' # es)) + debounce_ms, cd_elements (writeOf (last (e' # es))),
                   cd_appState (writeOf (last (e' # es))))
         \<and> storage (notifyAll P (e' # es) (notify P e c)) = storage (notify P e c)
         \<and> \<not> isUpdatingFromRestore (notifyAll P (e' # es) (notify P e c))
         \<and> lastSaveData (notifyAll P (e' # es) (notify P e c)) = hashOf P (last (e' # es))"
    using Cons.IH [OF n(1) p _ _ b(4)] n(4) n(5) b(1) b(3) by simp
  then show ?case using n(3) by simp
qed

lemma advance_fires:
  assumes "saveTimeout c = Some (due, els, app)" and "due \<le> t"
    and "db (storage c) \<or> \<not> openFails (storage c)" and "\<not> putFails (storage c)"
  shows "puts (storage (advance t c))
           = puts (storage c) @ [\<lparr>cd_elements = els, cd_appState = app, cd_timestamp = stamp due\<rparr>]"
    and "current (storage (advance t c))
           = Some \<lparr>cd_elements = els, cd_appState = app, cd_timestamp = stamp due\<rparr>"
    and "saveTimeout (advance t c) = None"
  using assms
  by (auto simp: advance_def fireFlagTimers_def fireSaveTimeout_def saveCanvasData_ok)

lemma advance_idle:
  assumes "saveTimeout c = None"
  shows "storage (advance t c) = storage c" and "saveTimeout (advance t c) = None"
  using assms by (auto simp: advance_def fireFlagTimers_def fireSaveTimeout_def)

lemma lastSaveData_advance: "lastSaveData (advance t c) = lastSaveData c"
  by (auto simp: advance_def fireFlagTimers_def fireSaveTimeout_def split: option.splits)

lemma notify_repeat:
  assumes "hashOf P e = lastSaveData c"
  shows "notify P e c = advance (fst e) c"
  using assms
  by (cases e) (simp add: notify_def onChange_def hashOf_def Let_def lastSaveData_advance)

lemma repeat_after_burst:
  assumes f: "\<not> isUpdatingFromRestore c" and p: "stillPending (fst e) c"
    and h: "hashOf P e \<noteq> lastSaveData c" and t: "clock c \<le> fst e"
    and b: "burst P (fst e) (hashOf P e) es"
    and ok: "db (storage c) \<or> \<not> openFails (storage c)" "\<not> putFails (storage c)"
    and r: "hashOf P e' = hashOf P (last (e # es))"
    and T: "fst (last (e # es)) + debounce_ms \<le> T"
  shows "puts (storage (advance T (notify P e' (notifyAll P (e # es) c))))
           = puts (storage c) @ [writeOf (last (e # es))]"
proof -
  let ?X = "notifyAll P (e # es) c"
  let ?l = "last (e # es)"
  from notifyAll_burst [OF f p h t b]
  have n: "saveTimeout ?X = Some (fst ?l + debounce_ms, cd_elements (writeOf ?l), cd_appState (writeOf ?l))"
    and s: "storage ?X = storage c" and fl: "\<not> isUpdatingFromRestore ?X"
    and l: "lastSaveData ?X = hashOf P ?l" by simp_all
  have w: "\<lparr>cd_elements = cd_elements (writeOf ?l), cd_appState = cd_appState (writeOf ?l),
            cd_timestamp = stamp (fst ?l + debounce_ms)\<rparr> = writeOf ?l"
    by (cases ?l) (simp add: writeOf_def)
  have ok': "db (storage ?X) \<or> \<not> openFails (storage ?X)" "\<not> putFails (storage ?X)"
    using ok s by simp_all
  have eq: "notify P e' ?X = advance (fst e') ?X"
    using notify_repeat [of P e' ?X] r l by simp
  show ?thesis
  proof (cases "fst e' < fst ?l + debounce_ms")
    case True
    then have sp: "stillPending (fst e') ?X" using n by (simp add: stillPending_def)
    note q = advance_quiet [OF fl sp]
    have n': "saveTimeout (advance (fst e') ?X)
                = Some (fst ?l + debounce_ms, cd_elements (writeOf ?l), cd_appState (writeOf ?l))"
      using q(2) n by simp
    have ok'': "db (storage (advance (fst e') ?X)) \<or> \<not> openFails (storage (advance (fst e') ?X))"
      "\<not> putFails (storage (advance (fst e') ?X))"
      using ok' q(3) by simp_all
    show ?thesis
      using advance_fires(1) [OF n' T ok''] q(3) s w eq by simp
  next
    case False
    then have d: "fst ?l + debounce_ms \<le> fst e'" by simp
    note a = advance_fires [OF n d ok']
    show ?thesis
      using advance_idle(1) [OF a(3), of T] a(1) s w eq by simp
  qed
qed

text \<open>
  C3, as the code has it. A change notification whose text equals the one recorded last
  changes nothing: no write is scheduled. For a burst of edits that are not suppressed,
  each less than 300 ms after the one before and each with a text different from the one
  before, starting while any earlier scheduled write is still pending: no record is written
  during the burst, and once 300 ms have passed after the last edit exactly one record has
  been written (the store accepting the write). It holds the elements of the last edit and
  its appState: the appState itself when its collaborators are a Map, as the drawing
  surface passes it, and in every case an appState with the same properties apart from
  \<^verbatim>\<open>collaborators\<close>, which is a Map. The files of the edit are not in the record. A further
  notification with the text of the last edit, whenever it comes, adds no write.
\<close>

theorem debounce_coalesces:
  "(hashOf P (t, elements, appState, files) = lastSaveData c \<longrightarrow>
      onChange P (JArr elements) appState files c = c)
   \<and> (\<not> isUpdatingFromRestore c \<and> stillPending (fst e) c \<and> clock c \<le> fst e
      \<and> hashOf P e \<noteq> lastSaveData c \<and> burst P (fst e) (hashOf P e) es
      \<and> (db (storage c) \<or> \<not> openFails (storage c)) \<and> \<not> putFails (storage c)
      \<and> fst (last (e # es)) + debounce_ms \<le> T \<longrightarrow>
      puts (storage (notifyAll P (e # es) c)) = puts (storage c)
      \<and> puts (storage (advance T (notifyAll P (e # es) c)))
          = puts (storage c) @ [writeOf (last (e # es))]
      \<and> current (storage (advance T (notifyAll P (e # es) c))) = Some (writeOf (last (e # es)))
      \<and> saveTimeout (advance T (notifyAll P (e # es) c)) = None
      \<and> (hashOf P e' = hashOf P (last (e # es)) \<longrightarrow>
          puts (storage (advance T (notify P e' (notifyAll P (e # es) c))))
            = puts (storage c) @ [writeOf (last (e # es))]))
   \<and> cd_elements (writeOf (t, elements, appState, files)) = JArr elements
   \<and> (js_truthy appState \<and> instanceof_Map (js_get appState ''collaborators'') \<longrightarrow>
        cd_appState (writeOf (t, elements, appState, files)) = appState)
   \<and> (k \<noteq> ''collaborators'' \<longrightarrow>
        js_get (cd_appState (writeOf (t, elements, appState, files))) k
          = js_get (JObj (js_spread appState)) k)
   \<and> instanceof_Map (js_get (cd_appState (writeOf (t, elements, appState, files))) ''collaborators'')
   \<and> cd_timestamp (writeOf (t, elements, appState, files)) = stamp (t + debounce_ms)
   \<and> writeOf (t, elements, appState, files) = writeOf (t, elements, appState, files')"
proof (intro conjI impI)
  assume "hashOf P (t, elements, appState, files) = lastSaveData c"
  then show "onChange P (JArr elements) appState files c = c"
    by (simp add: onChange_def hashOf_def Let_def)
next
  show "cd_elements (writeOf (t, elements, appState, files)) = JArr elements"
    by (simp add: writeOf_def)
  show "cd_appState (writeOf (t, elements, appState, files)) = appState"
    if "js_truthy appState \<and> instanceof_Map (js_get appState ''collaborators'')"
    using that by (simp add: writeOf_def savedAppState_properties(1))
  show "js_get (cd_appState (writeOf (t, elements, appState, files))) k
          = js_get (JObj (js_spread appState)) k" if "k \<noteq> ''collaborators''"
    using savedAppState_properties(2) [OF that] by (simp add: writeOf_def del: js_get.simps)
  show "instanceof_Map (js_get (cd_appState (writeOf (t, elements, appState, files))) ''collaborators'')"
    using savedAppState_properties(3) by (simp add: writeOf_def del: js_get.simps)
  show "cd_timestamp (writeOf (t, elements, appState, files)) = stamp (t + debounce_ms)"
    by (simp add: writeOf_def)
  show "writeOf (t, elements, appState, files) = writeOf (t, elements, appState, files')"
    by (simp add: writeOf_def)
next
  assume a: "\<not> isUpdatingFromRestore c \<and> stillPending (fst e) c \<and> clock c \<le> fst e
      \<and> hashOf P e \<noteq> lastSaveData c \<and> burst P (fst e) (hashOf P e) es
      \<and> (db (storage c) \<or> \<not> openFails (storage c)) \<and> \<not> putFails (storage c)
      \<and> fst (last (e # es)) + debounce_ms \<le> T"
  then have n: "saveTimeout (notifyAll P (e # es) c)
           = Some (fst (last (e # es)) + debounce_ms, cd_elements (writeOf (last (e # es))),
                   cd_appState (writeOf (last (e # es))))"
    and s: "storage (notifyAll P (e # es) c) = storage c"
    using notifyAll_burst [of c e P es] by simp_all
  have w: "\<lparr>cd_elements = cd_elements (writeOf x), cd_appState = cd_appState (writeOf x),
            cd_timestamp = stamp (fst x + debounce_ms)\<rparr> = writeOf x" for x
    by (cases x) (simp add: writeOf_def)
  from a have ok: "db (storage (notifyAll P (e # es) c)) \<or> \<not> openFails (storage (notifyAll P (e # es) c))"
    "\<not> putFails (storage (notifyAll P (e # es) c))"
    and T: "fst (last (e # es)) + debounce_ms \<le> T" using s by simp_all
  note f = advance_fires [OF n T ok]
  show "puts (storage (notifyAll P (e # es) c)) = puts (storage c)" using s by simp
  show "puts (storage (advance T (notifyAll P (e # es) c)))
          = puts (storage c) @ [writeOf (last (e # es))]"
    using f(1) s w by simp
  show "current (storage (advance T (notifyAll P (e # es) c))) = Some (writeOf (last (e # es)))"
    using f(2) w by simp
  show "saveTimeout (advance T (notifyAll P (e # es) c)) = None" using f(3) .
  assume r: "hashOf P e' = hashOf P (last (e # es))"
  show "puts (storage (advance T (notify P e' (notifyAll P (e # es) c))))
            = puts (storage c) @ [writeOf (last (e # es))]"
    using repeat_after_burst [of c e P es e' T] a r by simp
qed

text \<open>Three edits at 10, 200 and 450 ms, over a write scheduled earlier for 100 ms: one
  record, written at 750 ms, with the three elements and the appState of the last edit,
  also when the last edit is notified once more at 500 ms.\<close>

theorem debounce_coalesces_witness:
  "onChange plainPlatform (JArr []) JUndefined JUndefined pendingStart = pendingStart
   \<and> puts (storage (notifyAll plainPlatform threeEdits pendingStart)) = []
   \<and> puts (storage (advance 750 (notifyAll plainPlatform threeEdits pendingStart)))
       = [\<lparr>cd_elements = JArr [rectangle, rectangle, rectangle],
           cd_appState = JObj [(''theme'', JStr ''light''), (''collaborators'', JMap [])],
           cd_timestamp = JNum (Fin 750)\<rparr>]
   \<and> puts (storage (advance 750 (notify plainPlatform
          (500, [rectangle, rectangle, rectangle], liveAppState, JObj [(''f1'', JStr ''data'')])
          (notifyAll plainPlatform threeEdits pendingStart))))
       = [\<lparr>cd_elements = JArr [rectangle, rectangle, rectangle],
           cd_appState = JObj [(''theme'', JStr ''light''), (''collaborators'', JMap [])],
           cd_timestamp = JNum (Fin 750)\<rparr>]
   \<and> cd_appState (writeOf (200, [rectangle, rectangle], JObj [(''theme'', JStr ''dark'')], JUndefined))
       = JObj [(''theme'', JStr ''dark''), (''collaborators'', JMap [])]"
  using debounce_coalesces [of plainPlatform 0 "[]" JUndefined JUndefined pendingStart
      "(10, [rectangle], JUndefined, JUndefined)"
      "[(200, [rectangle, rectangle], JObj [(''theme'', JStr ''dark'')], JUndefined),
        (450, [rectangle, rectangle, rectangle], liveAppState, JObj [(''f1'', JStr ''data'')])]" 750
      "(500, [rectangle, rectangle, rectangle], liveAppState, JObj [(''f1'', JStr ''data'')])"
      "''theme''" JUndefined]
    debounce_coalesces [of plainPlatform 450 "[rectangle, rectangle, rectangle]" liveAppState
      "JObj [(''f1'', JStr ''data'')]" "pendingStart\<lparr>lastSaveData := ''eee''\<rparr>"
      "(10, [rectangle], JUndefined, JUndefined)" "[]" 750
      "(10, [rectangle], JUndefined, JUndefined)" "''theme''" JUndefined]
  by (simp add: threeEdits_def pendingStart_def startState_def healthy_def stillPending_def
        hashOf_def plainPlatform_def debounce_ms_def writeOf_def stamp_def
        savedAppState_def liveAppState_def)

text \<open>
  C3 as stated fails: an edit that changes the files only changes the text, and the
  record written for the burst is the same whatever the files of its last edit are, so its
  content is not that of the last edit.
\<close>

theorem debounce_write_omits_files:
  "burst filesPlatform 0 (lastSaveData (startState (healthy None) 0)) [noFilesEdit, fileEdit]
   \<and> burst filesPlatform 0 (lastSaveData (startState (healthy None) 0)) [noFilesEdit, otherFileEdit]
   \<and> fileEdit \<noteq> otherFileEdit
   \<and> puts (storage (advance 400 (notifyAll filesPlatform [noFilesEdit, fileEdit]
        (startState (healthy None) 0))))
       = [\<lparr>cd_elements = JArr [rectangle], cd_appState = liveAppState,
           cd_timestamp = JNum (Fin 400)\<rparr>]
   \<and> puts (storage (advance 400 (notifyAll filesPlatform [noFilesEdit, otherFileEdit]
        (startState (healthy None) 0))))
       = [\<lparr>cd_elements = JArr [rectangle], cd_appState = liveAppState,
           cd_timestamp = JNum (Fin 400)\<rparr>]"
  by (simp add: noFilesEdit_def fileEdit_def otherFileEdit_def filesPlatform_def plainPlatform_def
        hashOf_def debounce_ms_def startState_def healthy_def liveAppState_def
        notify_def onChange_def advance_def fireFlagTimers_def fireSaveTimeout_def
        saveCanvasData_def ensureDb_def init_def ensureCollaboratorsMap_def stamp_def
        js_or_def Let_def)

text \<open>
  C2 at start-up. \<^verbatim>\<open>initializeStorage\<close> hands the restored scene to the drawing surface
  without setting \<^verbatim>\<open>isUpdatingFromRestore\<close> and without a timer to clear it: the change
  notification that follows 10 ms later schedules a write, and at 310 ms a second record is
  written. After \<^verbatim>\<open>handleCanvasUpdate\<close> with the same document the flag is set, a timer for
  100 ms is pending, the same notification is dropped and no second record is written.
\<close>

theorem startup_echo_is_saved:
  "\<not> isUpdatingFromRestore afterStartup
   \<and> flagTimers afterStartup = []
   \<and> map sc_elements (scenes afterStartup) = [JArr [rectangle]]
   \<and> length (puts (storage afterStartup)) = 1
   \<and> map_option fst (saveTimeout (notify plainPlatform echo afterStartup)) = Some 310
   \<and> length (puts (storage (advance 310 (notify plainPlatform echo afterStartup)))) = 2
   \<and> isUpdatingFromRestore afterPush
   \<and> flagTimers afterPush = [100]
   \<and> saveTimeout (notify plainPlatform echo afterPush) = None
   \<and> length (puts (storage (advance 310 (notify plainPlatform echo afterPush)))) = 1"
proof -
  have s: "afterStartup = (startState (healthy None) 0)\<lparr>
      scenes := [\<lparr>sc_elements = JArr [rectangle], sc_appState = JObj [(''collaborators'', JMap [])],
                  sc_files = Some (JObj [])\<rparr>],
      storage := (healthy (Some \<lparr>cd_elements = JArr [rectangle], cd_appState = JObj [],
                                  cd_timestamp = stamp 0\<rparr>))\<lparr>db := True,
                     puts := [\<lparr>cd_elements = JArr [rectangle], cd_appState = JObj [],
                                  cd_timestamp = stamp 0\<rparr>]\<rparr>\<rparr>"
    by (simp add: afterStartup_def initializeStorage_def init_def startState_def healthy_def
          repairData_def loadCanvasData_def ensureDb_def fetchBackendData_def serviceAnswer_def
          saveCanvasData_def restoreScene_def Let_def plainPlatform_def js_or_def
          ensureCollaboratorsMap_def)
  obtain r where r: "processElements plainPlatform 0 [rectangle] = Some [r]"
    using processElements_single [OF rectangle_converts] by blast
  have p: "afterPush = (startState (healthy None) 0)\<lparr>
      scenes := [\<lparr>sc_elements = JArr [r],
                  sc_appState = JObj [(''collaborators'', JMap [])],
                  sc_files = Some (JObj [])\<rparr>],
      isUpdatingFromRestore := True, flagTimers := [100],
      storage := (healthy (Some \<lparr>cd_elements = JArr [r],
                                  cd_appState = JObj [], cd_timestamp = stamp 0\<rparr>))\<lparr>db := True,
                     puts := [\<lparr>cd_elements = JArr [r],
                                  cd_appState = JObj [], cd_timestamp = stamp 0\<rparr>]\<rparr>\<rparr>"
    using r
    by (simp add: afterPush_def handleCanvasUpdate_def startState_def healthy_def
          saveCanvasData_def ensureDb_def init_def applied_def saveLogged_def Let_def js_or_def
          ensureCollaboratorsMap_def)
  show ?thesis
    unfolding s p
    by (simp add: startState_def healthy_def notify_def echo_def advance_def fireFlagTimers_def
          fireSaveTimeout_def onChange_def Let_def plainPlatform_def debounce_ms_def
          saveCanvasData_def ensureDb_def init_def ensureCollaboratorsMap_def js_or_def)
qed

end
